theory Spec2Isabelle
  imports Complex_Main
begin

section \<open>JavaScript numbers\<close>

text \<open>
  A JavaScript number is modelled as a real number, one of the two infinities, or NaN.
  Rounding, overflow and the sign of zero are not modelled: a finite result is the exact
  real result, and a zero divisor counts as \<open>+0\<close> (every divisor of the modelled code
  is a positive constant, an array length or a difference of two array indices).
  The operators follow IEEE 754 on these four kinds of value: NaN is absorbing for the
  arithmetic and makes every comparison false.
\<close>

datatype jsnum = Fin real | PInf | NInf | NaN

fun jneg :: "jsnum \<Rightarrow> jsnum" where
  "jneg (Fin a) = Fin (- a)"
| "jneg PInf = NInf"
| "jneg NInf = PInf"
| "jneg NaN = NaN"

fun jadd :: "jsnum \<Rightarrow> jsnum \<Rightarrow> jsnum" where
  "jadd (Fin a) (Fin b) = Fin (a + b)"
| "jadd NaN _ = NaN"
| "jadd _ NaN = NaN"
| "jadd PInf NInf = NaN"
| "jadd NInf PInf = NaN"
| "jadd PInf _ = PInf"
| "jadd _ PInf = PInf"
| "jadd NInf _ = NInf"
| "jadd _ NInf = NInf"

definition jsub :: "jsnum \<Rightarrow> jsnum \<Rightarrow> jsnum" where
  "jsub a b = jadd a (jneg b)"

text \<open>The sign of a number that is not NaN, as \<open>-1\<close>, \<open>0\<close> or \<open>1\<close>.\<close>

fun jsign :: "jsnum \<Rightarrow> real" where
  "jsign (Fin a) = sgn a"
| "jsign PInf = 1"
| "jsign NInf = - 1"
| "jsign NaN = 0"

definition signed_inf :: "real \<Rightarrow> jsnum" where
  "signed_inf s = (if s = 0 then NaN else if 0 < s then PInf else NInf)"

fun jmul :: "jsnum \<Rightarrow> jsnum \<Rightarrow> jsnum" where
  "jmul (Fin a) (Fin b) = Fin (a * b)"
| "jmul NaN _ = NaN"
| "jmul _ NaN = NaN"
| "jmul a b = signed_inf (jsign a * jsign b)"

fun jdiv :: "jsnum \<Rightarrow> jsnum \<Rightarrow> jsnum" where
  "jdiv (Fin a) (Fin b) = (if b = 0 then signed_inf (sgn a) else Fin (a / b))"
| "jdiv NaN _ = NaN"
| "jdiv _ NaN = NaN"
| "jdiv (Fin a) _ = Fin 0"
| "jdiv a (Fin b) = signed_inf (jsign a * (if b < 0 then - 1 else 1))"
| "jdiv _ _ = NaN"

fun jabs :: "jsnum \<Rightarrow> jsnum" where
  "jabs (Fin a) = Fin \<bar>a\<bar>"
| "jabs PInf = PInf"
| "jabs NInf = PInf"
| "jabs NaN = NaN"

fun jlt :: "jsnum \<Rightarrow> jsnum \<Rightarrow> bool" where
  "jlt (Fin a) (Fin b) = (a < b)"
| "jlt NaN _ = False"
| "jlt _ NaN = False"
| "jlt _ NInf = False"
| "jlt PInf _ = False"
| "jlt _ _ = True"

fun jle :: "jsnum \<Rightarrow> jsnum \<Rightarrow> bool" where
  "jle (Fin a) (Fin b) = (a \<le> b)"
| "jle NaN _ = False"
| "jle _ NaN = False"
| "jle NInf _ = True"
| "jle _ PInf = True"
| "jle _ _ = False"

text \<open>\<open>a > b\<close> and \<open>a >= b\<close> are \<open>b < a\<close> and \<open>b <= a\<close>, also on NaN.\<close>

definition jgt :: "jsnum \<Rightarrow> jsnum \<Rightarrow> bool" where
  "jgt a b = jlt b a"

definition jge :: "jsnum \<Rightarrow> jsnum \<Rightarrow> bool" where
  "jge a b = jle b a"

text \<open>\<open>Math.min\<close> and \<open>Math.max\<close> of two arguments: NaN if either argument is.\<close>

definition Math_min :: "jsnum \<Rightarrow> jsnum \<Rightarrow> jsnum" where
  "Math_min a b = (if a = NaN \<or> b = NaN then NaN else if jlt b a then b else a)"

definition Math_max :: "jsnum \<Rightarrow> jsnum \<Rightarrow> jsnum" where
  "Math_max a b = (if a = NaN \<or> b = NaN then NaN else if jlt a b then b else a)"

fun Math_sqrt :: "jsnum \<Rightarrow> jsnum" where
  "Math_sqrt (Fin a) = (if a < 0 then NaN else Fin (sqrt a))"
| "Math_sqrt PInf = PInf"
| "Math_sqrt _ = NaN"

fun Math_sin :: "jsnum \<Rightarrow> jsnum" where
  "Math_sin (Fin a) = Fin (sin a)"
| "Math_sin _ = NaN"

text \<open>\<open>v || 0\<close> on a number: the falsy numbers are zero and NaN.\<close>

definition or_zero :: "jsnum \<Rightarrow> jsnum" where
  "or_zero v = (if v = NaN \<or> v = Fin 0 then Fin 0 else v)"

text \<open>
  Reading a \<open>Float32Array\<close>: an index outside the array reads \<open>undefined\<close>, which
  \<open>Math.abs\<close> and the arithmetic operators turn into NaN. Writing outside the array
  is ignored.
\<close>

definition ta_get :: "jsnum list \<Rightarrow> nat \<Rightarrow> jsnum" where
  "ta_get xs i = (if i < length xs then xs ! i else NaN)"

definition ta_set :: "jsnum list \<Rightarrow> nat \<Rightarrow> jsnum \<Rightarrow> jsnum list" where
  "ta_set xs i v = (if i < length xs then xs[i := v] else xs)"

text \<open>\<open>Array.prototype.splice(i, 1)\<close>; an index past the end removes nothing.\<close>

definition splice1 :: "nat \<Rightarrow> 'a list \<Rightarrow> 'a list" where
  "splice1 i xs = take i xs @ drop (Suc i) xs"

section \<open>Marble physics (MarblePhysics)\<close>

record vec3 =
  v_x :: jsnum
  v_y :: jsnum
  v_z :: jsnum

definition Vector3 :: "jsnum \<Rightarrow> jsnum \<Rightarrow> jsnum \<Rightarrow> vec3" where
  "Vector3 a b c = \<lparr>v_x = a, v_y = b, v_z = c\<rparr>"

definition vec_add :: "vec3 \<Rightarrow> vec3 \<Rightarrow> vec3" where
  "vec_add u w = \<lparr>v_x = jadd (v_x u) (v_x w), v_y = jadd (v_y u) (v_y w),
                  v_z = jadd (v_z u) (v_z w)\<rparr>"

definition multiplyScalar :: "vec3 \<Rightarrow> jsnum \<Rightarrow> vec3" where
  "multiplyScalar u c = \<lparr>v_x = jmul (v_x u) c, v_y = jmul (v_y u) c, v_z = jmul (v_z u) c\<rparr>"

record marble =
  position :: vec3
  velocity :: vec3
  acceleration :: vec3
  radius :: jsnum
  mass :: jsnum
  bounceCount :: nat
  isActive :: bool

text \<open>A colour is kept as the hexadecimal code it was built from.\<close>

record xylophone_key =
  k_position :: vec3
  width :: jsnum
  height :: jsnum
  depth :: jsnum
  key_note :: string
  frequency :: jsnum
  color :: nat
  isHit :: bool
  hitTime :: int

text \<open>The part of a marble's mesh that the simulation writes.\<close>

record marble_mesh =
  mesh_position :: vec3
  rotation_x :: jsnum
  rotation_z :: jsnum

text \<open>
  The part of a key's mesh that the key animation writes: the vertical scale, and the
  factor by which the key's colour is scaled to give the emissive colour (0 is black).
\<close>

record key_mesh =
  scale_y :: jsnum
  emissive_factor :: jsnum

text \<open>A particle burst in the scene: 20 points, all of the struck key's colour.\<close>

record hit_particles =
  burst_positions :: "jsnum list"
  burst_color :: nat

text \<open>The audio argument of \<open>update\<close>.\<close>

record physics_audio =
  pa_frequencyData :: "jsnum list"
  pa_volume :: jsnum

text \<open>
  The state of a \<open>MarblePhysics\<close> object. \<open>marbles\<close> holds the marble objects
  themselves: the code mutates a marble through a reference into this array, so every
  write to a marble is a write to the array at its index. The scene is shared with the
  animation engine; the children this class adds to it are exactly \<open>keyMeshes\<close>,
  \<open>marbleMeshes\<close>, the trail line and the particle bursts, so they stand for its part of
  the scene (a burst is removed again by a timer one second later, which is not
  modelled). \<open>synthNotes\<close> is the sequence of calls \<open>xylophoneSynth.playNote(frequency,
  velocity)\<close> made so far. \<open>Math.random()\<close> returns the next element of \<open>rand_seq\<close>,
  an arbitrary sequence. The constructor's \<open>gravity\<close>, \<open>friction\<close> and
  \<open>bounceDamping\<close> are never reassigned and are constants here.
\<close>

record physics =
  marbles :: "marble list"
  keys :: "xylophone_key list"
  marbleMeshes :: "marble_mesh list"
  keyMeshes :: "key_mesh list"
  trailPoints :: "vec3 list"
  trailGeometry :: "jsnum list"
  hitEffects :: "hit_particles list"
  synthNotes :: "(jsnum \<times> jsnum) list"
  rand_seq :: "nat \<Rightarrow> real"
  rand_ix :: nat

definition gravity :: vec3 where
  "gravity = Vector3 (Fin 0) (Fin (- 9.8)) (Fin 0)"

definition friction :: jsnum where
  "friction = Fin 0.98"

definition bounceDamping :: jsnum where
  "bounceDamping = Fin 0.7"

definition Math_random :: "physics \<Rightarrow> jsnum \<times> physics" where
  "Math_random s = (Fin (rand_seq s (rand_ix s)), s\<lparr>rand_ix := Suc (rand_ix s)\<rparr>)"

subsection \<open>Construction\<close>

definition note_names :: "string list" where
  "note_names = [''C'', ''D'', ''E'', ''F'', ''G'', ''A'', ''B'']"

definition frequencies :: "jsnum list" where
  "frequencies = [Fin 261.63, Fin 293.66, Fin 329.63, Fin 349.23, Fin 392.00, Fin 440.00,
                  Fin 493.88]"

definition colors :: "nat list" where
  "colors = [0xff6b6b, 0xffa726, 0xffeb3b, 0x4caf50, 0x2196f3, 0x9c27b0, 0xe91e63]"

definition make_key :: "nat \<Rightarrow> xylophone_key" where
  "make_key i =
     \<lparr>k_position = Vector3 (Fin (real i * 2 - 6)) (Fin 0) (Fin 0),
      width = Fin 1.5, height = Fin 0.3, depth = Fin 0.8,
      key_note = note_names ! i, frequency = frequencies ! i, color = colors ! i,
      isHit = False, hitTime = 0\<rparr>"

definition createKeyMesh :: "xylophone_key \<Rightarrow> key_mesh" where
  "createKeyMesh key = \<lparr>scale_y = Fin 1, emissive_factor = Fin 0\<rparr>"

definition setupXylophoneKeys :: "physics \<Rightarrow> physics" where
  "setupXylophoneKeys s =
     foldl (\<lambda>s i. s\<lparr>keys := keys s @ [make_key i],
                     keyMeshes := keyMeshes s @ [createKeyMesh (make_key i)]\<rparr>)
       s [0..<length note_names]"

definition MarblePhysics_new :: "(nat \<Rightarrow> real) \<Rightarrow> physics" where
  "MarblePhysics_new rs =
     setupXylophoneKeys
       \<lparr>marbles = [], keys = [], marbleMeshes = [], keyMeshes = [], trailPoints = [],
        trailGeometry = [], hitEffects = [], synthNotes = [], rand_seq = rs, rand_ix = 0\<rparr>"

definition createMarbleMesh :: "marble \<Rightarrow> physics \<Rightarrow> physics" where
  "createMarbleMesh m s =
     s\<lparr>marbleMeshes := marbleMeshes s @
          [\<lparr>mesh_position = position m, rotation_x = Fin 0, rotation_z = Fin 0\<rparr>]\<rparr>"

definition createMarble :: "jsnum \<Rightarrow> physics \<Rightarrow> physics" where
  "createMarble startHeight s =
     (let (r1, s1) = Math_random s;
          (r2, s2) = Math_random s1;
          m = \<lparr>position = Vector3 (jmul (jsub r1 (Fin 0.5)) (Fin 2)) startHeight (Fin 0),
               velocity = Vector3 (jmul (jsub r2 (Fin 0.5)) (Fin 2)) (Fin 0) (Fin 0),
               acceleration = Vector3 (Fin 0) (Fin 0) (Fin 0),
               radius = Fin 0.3, mass = Fin 1, bounceCount = 0, isActive = True\<rparr>
      in createMarbleMesh m (s2\<lparr>marbles := marbles s2 @ [m]\<rparr>))"

subsection \<open>Audio influence\<close>

text \<open>
  \<open>getFrequencyLevel\<close>: the mean of the absolute values between two percentages of the
  array. The percentages are natural numbers at every call site (0, 10, 50, 100).
\<close>

definition getFrequencyLevel :: "jsnum list \<Rightarrow> nat \<Rightarrow> nat \<Rightarrow> jsnum" where
  "getFrequencyLevel frequencyData startPercent endPercent =
     (let len = length frequencyData;
          startIndex = nat \<lfloor>(real startPercent / 100) * real len\<rfloor>;
          endIndex = nat \<lfloor>(real endPercent / 100) * real len\<rfloor>;
          sum = foldl (\<lambda>sum i. jadd sum (jabs (ta_get frequencyData i))) (Fin 0)
                  [startIndex..<endIndex]
      in jdiv sum (Fin (real endIndex - real startIndex)))"

definition applyAudioInfluence :: "nat \<Rightarrow> physics_audio \<Rightarrow> physics \<Rightarrow> physics" where
  "applyAudioInfluence i audioData s =
     (let marble = marbles s ! i;
          bassLevel = getFrequencyLevel (pa_frequencyData audioData) 0 10;
          midLevel = getFrequencyLevel (pa_frequencyData audioData) 10 50;
          trebleLevel = getFrequencyLevel (pa_frequencyData audioData) 50 100;
          (r1, s1) = Math_random s;
          marble1 = marble\<lparr>velocity := (velocity marble)
            \<lparr>v_x := jadd (v_x (velocity marble))
                      (jmul (jmul (jsub r1 (Fin 0.5)) bassLevel) (Fin 0.1))\<rparr>\<rparr>;
          marble2 = (if jgt midLevel (Fin 0.3)
            then marble1\<lparr>velocity := (velocity marble1)
              \<lparr>v_y := jadd (v_y (velocity marble1)) (jmul midLevel (Fin 0.5))\<rparr>\<rparr>
            else marble1);
          (r2, s2) = Math_random s1;
          marble3 = marble2\<lparr>velocity := (velocity marble2)
            \<lparr>v_z := jadd (v_z (velocity marble2))
                      (jmul (jmul (jsub r2 (Fin 0.5)) trebleLevel) (Fin 0.05))\<rparr>\<rparr>
      in s2\<lparr>marbles := (marbles s2)[i := marble3]\<rparr>)"

subsection \<open>Collisions\<close>

text \<open>The condition of the \<open>if\<close> in \<open>checkKeyCollisions\<close>.\<close>

definition key_collision_test :: "marble \<Rightarrow> xylophone_key \<Rightarrow> bool" where
  "key_collision_test marble key =
     (jge (v_x (position marble)) (jsub (v_x (k_position key)) (jdiv (width key) (Fin 2))) \<and>
      jle (v_x (position marble)) (jadd (v_x (k_position key)) (jdiv (width key) (Fin 2))) \<and>
      jle (v_y (position marble))
          (jadd (jadd (v_y (k_position key)) (jdiv (height key) (Fin 2))) (radius marble)) \<and>
      jge (v_y (position marble))
          (jsub (jsub (v_y (k_position key)) (jdiv (height key) (Fin 2))) (radius marble)))"

text \<open>The first two conjuncts of the test: the marble's centre is within the key's width.\<close>

definition x_in_key :: "marble \<Rightarrow> xylophone_key \<Rightarrow> bool" where
  "x_in_key marble key =
     (jge (v_x (position marble)) (jsub (v_x (k_position key)) (jdiv (width key) (Fin 2))) \<and>
      jle (v_x (position marble)) (jadd (v_x (k_position key)) (jdiv (width key) (Fin 2))))"

text \<open>One round of the loop of \<open>createHitEffect\<close>: the next point of the burst.\<close>

definition hit_particle :: "vec3 \<Rightarrow> jsnum list \<times> physics \<Rightarrow> jsnum list \<times> physics" where
  "hit_particle p acc =
     (let (positions, s) = acc;
          (r1, s1) = Math_random s;
          (r2, s2) = Math_random s1;
          (r3, s3) = Math_random s2
      in (positions @ [jadd (v_x p) (jmul (jsub r1 (Fin 0.5)) (Fin 2)),
                       jadd (v_y p) (jmul (jsub r2 (Fin 0.5)) (Fin 2)),
                       jadd (v_z p) (jmul (jsub r3 (Fin 0.5)) (Fin 2))], s3))"

definition createHitEffect :: "vec3 \<Rightarrow> nat \<Rightarrow> physics \<Rightarrow> physics" where
  "createHitEffect p c s =
     (let (positions, s1) = (hit_particle p ^^ 20) ([], s)
      in s1\<lparr>hitEffects := hitEffects s1 @ [\<lparr>burst_positions = positions, burst_color = c\<rparr>]\<rparr>)"

text \<open>
  \<open>playNote\<close> reads the vertical velocity of the last marble of the array as it is when
  the note is played (0 if the array is empty or the velocity is falsy).
\<close>

definition playNote :: "jsnum \<Rightarrow> physics \<Rightarrow> physics" where
  "playNote freq s =
     (let vy = (if marbles s = [] then Fin 0
                else or_zero (v_y (velocity (last (marbles s)))));
          vel = Math_min (Fin 1.0) (jdiv (jabs vy) (Fin 10))
      in s\<lparr>synthNotes := synthNotes s @ [(freq, vel)]\<rparr>)"

definition handleKeyCollision :: "nat \<Rightarrow> nat \<Rightarrow> int \<Rightarrow> physics \<Rightarrow> physics" where
  "handleKeyCollision i keyIndex now s =
     (let marble = marbles s ! i;
          key = keys s ! keyIndex;
          marble1 = marble\<lparr>velocity := (velocity marble)
            \<lparr>v_y := jmul (jabs (v_y (velocity marble))) bounceDamping\<rparr>\<rparr>;
          marble2 = marble1\<lparr>position := (position marble1)
            \<lparr>v_y := jadd (jadd (v_y (k_position key)) (jdiv (height key) (Fin 2)))
                      (radius marble1)\<rparr>\<rparr>;
          (r, s1) = Math_random s;
          marble3 = marble2\<lparr>velocity := (velocity marble2)
            \<lparr>v_x := jadd (v_x (velocity marble2)) (jmul (jsub r (Fin 0.5)) (Fin 2))\<rparr>\<rparr>;
          key1 = key\<lparr>isHit := True, hitTime := now\<rparr>;
          s2 = s1\<lparr>marbles := (marbles s1)[i := marble3],
                  keys := (keys s1)[keyIndex := key1]\<rparr>;
          s3 = createHitEffect (k_position key1) (color key1) s2;
          s4 = playNote (frequency key1) s3;
          marble4 = marbles s4 ! i
      in s4\<lparr>marbles := (marbles s4)[i := marble4\<lparr>bounceCount := Suc (bounceCount marble4)\<rparr>]\<rparr>)"

definition checkKeyCollisions :: "nat \<Rightarrow> int \<Rightarrow> physics \<Rightarrow> physics" where
  "checkKeyCollisions i now s =
     foldl (\<lambda>s k. if key_collision_test (marbles s ! i) (keys s ! k)
                   then handleKeyCollision i k now s else s)
       s [0..<length (keys s)]"

subsection \<open>The step\<close>

text \<open>
  The body of the loop of \<open>update\<close> for the marble at index \<open>i\<close>, in the order of the
  source: gravity, audio influence and integration; collisions; the mesh; the trail;
  removal. \<open>now\<close> is the value of \<open>Date.now()\<close> during the call.
\<close>

definition integrate_marble :: "jsnum \<Rightarrow> physics_audio option \<Rightarrow> nat \<Rightarrow> physics \<Rightarrow> physics" where
  "integrate_marble deltaTime audioData i s =
     (let marble = marbles s ! i;
          s1 = s\<lparr>marbles := (marbles s)[i := marble\<lparr>acceleration := gravity\<rparr>]\<rparr>;
          s2 = (case audioData of None \<Rightarrow> s1 | Some a \<Rightarrow> applyAudioInfluence i a s1);
          marble2 = marbles s2 ! i;
          vel1 = vec_add (velocity marble2) (multiplyScalar (acceleration marble2) deltaTime);
          vel2 = multiplyScalar vel1 friction;
          pos = vec_add (position marble2) (multiplyScalar vel2 deltaTime)
      in s2\<lparr>marbles := (marbles s2)[i := marble2\<lparr>velocity := vel2, position := pos\<rparr>]\<rparr>)"

definition updateMarbleMesh :: "jsnum \<Rightarrow> nat \<Rightarrow> physics \<Rightarrow> physics" where
  "updateMarbleMesh deltaTime i s =
     (if i < length (marbleMeshes s) then
        (let marble = marbles s ! i;
             mesh = marbleMeshes s ! i;
             mesh1 = mesh\<lparr>mesh_position := position marble,
               rotation_x := jadd (rotation_x mesh)
                               (jmul (jmul (v_y (velocity marble)) deltaTime) (Fin 0.5)),
               rotation_z := jadd (rotation_z mesh)
                               (jmul (jmul (v_x (velocity marble)) deltaTime) (Fin 0.5))\<rparr>
         in s\<lparr>marbleMeshes := (marbleMeshes s)[i := mesh1]\<rparr>)
      else s)"

definition addToTrail :: "nat \<Rightarrow> physics \<Rightarrow> physics" where
  "addToTrail i s =
     (let pts = trailPoints s @ [position (marbles s ! i)]
      in s\<lparr>trailPoints := (if length pts > 100 then tl pts else pts)\<rparr>)"

definition removeIfFallen :: "nat \<Rightarrow> physics \<Rightarrow> physics" where
  "removeIfFallen i s =
     (let marble = marbles s ! i
      in if jlt (v_y (position marble)) (Fin (- 10))
         then s\<lparr>marbles := splice1 i ((marbles s)[i := marble\<lparr>isActive := False\<rparr>]),
                marbleMeshes := splice1 i (marbleMeshes s)\<rparr>
         else s)"

definition update_marble ::
  "jsnum \<Rightarrow> physics_audio option \<Rightarrow> int \<Rightarrow> nat \<Rightarrow> physics \<Rightarrow> physics" where
  "update_marble deltaTime audioData now i s =
     (if \<not> isActive (marbles s ! i) then s
      else removeIfFallen i (addToTrail i (updateMarbleMesh deltaTime i
             (checkKeyCollisions i now (integrate_marble deltaTime audioData i s)))))"

definition updateTrail :: "physics \<Rightarrow> physics" where
  "updateTrail s =
     (if length (trailPoints s) > 1
      then s\<lparr>trailGeometry := concat (map (\<lambda>p. [v_x p, v_y p, v_z p]) (trailPoints s))\<rparr>
      else s)"

text \<open>
  \<open>keys\<close> and \<open>keyMeshes\<close> are filled together by \<open>setupXylophoneKeys\<close> and never
  resized, so \<open>keyMeshes[i]\<close> exists for every key index.
\<close>

definition updateKeyAnimation :: "int \<Rightarrow> nat \<Rightarrow> physics \<Rightarrow> physics" where
  "updateKeyAnimation now i s =
     (let key = keys s ! i in
      if isHit key then
        (let timeSinceHit = Fin (real_of_int (now - hitTime key));
             intensity = Math_max (Fin 0) (jsub (Fin 1) (jdiv timeSinceHit (Fin 500)));
             s1 = s\<lparr>keyMeshes := (keyMeshes s)
                    [i := \<lparr>scale_y = jadd (Fin 1) (jmul intensity (Fin 0.3)),
                           emissive_factor = jmul intensity (Fin 0.5)\<rparr>]\<rparr>
         in if jgt timeSinceHit (Fin 500)
            then s1\<lparr>keys := (keys s1)[i := key\<lparr>isHit := False\<rparr>],
                    keyMeshes := (keyMeshes s1)[i := \<lparr>scale_y = Fin 1, emissive_factor = Fin 0\<rparr>]\<rparr>
            else s1)
      else s)"

definition updateKeyAnimations :: "int \<Rightarrow> physics \<Rightarrow> physics" where
  "updateKeyAnimations now s = foldl (\<lambda>s i. updateKeyAnimation now i s) s [0..<length (keys s)]"

text \<open>\<open>update\<close>: the marbles are visited from the last index down to 0.\<close>

definition update :: "jsnum \<Rightarrow> physics_audio option \<Rightarrow> int \<Rightarrow> physics \<Rightarrow> physics" where
  "update deltaTime audioData now s =
     updateKeyAnimations now (updateTrail
       (foldl (\<lambda>s i. update_marble deltaTime audioData now i s) s
          (rev [0..<length (marbles s)])))"

definition spawnMarbleFromAudio :: "jsnum \<Rightarrow> jsnum \<Rightarrow> physics \<Rightarrow> physics" where
  "spawnMarbleFromAudio volume bassLevel s =
     (if jgt volume (Fin 0.1) \<and> jgt bassLevel (Fin 0.1)
      then createMarble (jadd (Fin 8) (jmul bassLevel (Fin 5))) s
      else s)"

definition clearMarbles :: "physics \<Rightarrow> physics" where
  "clearMarbles s = s\<lparr>marbles := [], marbleMeshes := [], trailPoints := []\<rparr>"

section \<open>Audio feature extraction (AudioAnalyzer)\<close>

record audio_data =
  frequencyData :: "jsnum list"
  timeDomainData :: "jsnum list"
  bassLevel :: jsnum
  midLevel :: jsnum
  trebleLevel :: jsnum
  volume :: jsnum
  beat :: bool

text \<open>
  The state of an \<open>AudioAnalyzer\<close>: whether the audio context and its analyser node
  exist, the two buffers (\<open>None\<close> is \<open>null\<close>), the decoded source (its duration stands
  for it) and the playing flag. The platform is an input: whether it can build an audio
  context, whether it can decode a file, and what the analyser writes into the buffers at
  a tick.
\<close>

record analyzer =
  audioContext :: bool
  analyser :: bool
  an_frequencyData :: "jsnum list option"
  an_timeDomainData :: "jsnum list option"
  source :: "jsnum option"
  isPlaying :: bool

definition fftSize :: nat where
  "fftSize = 2048"

text \<open>The analyser's \<open>frequencyBinCount\<close> is half its \<open>fftSize\<close>.\<close>

definition frequencyBinCount :: nat where
  "frequencyBinCount = fftSize div 2"

text \<open>
  \<open>initAudioContext\<close>: when the platform cannot build the context, the exception is
  caught and logged and nothing is assigned.
\<close>

definition initAudioContext :: "bool \<Rightarrow> analyzer \<Rightarrow> analyzer" where
  "initAudioContext platform_ok a =
     (if platform_ok
      then a\<lparr>audioContext := True, analyser := True,
             an_frequencyData := Some (replicate frequencyBinCount (Fin 0)),
             an_timeDomainData := Some (replicate frequencyBinCount (Fin 0))\<rparr>
      else a)"

definition AudioAnalyzer_new :: "bool \<Rightarrow> analyzer" where
  "AudioAnalyzer_new platform_ok =
     initAudioContext platform_ok
       \<lparr>audioContext = False, analyser = False, an_frequencyData = None,
        an_timeDomainData = None, source = None, isPlaying = False\<rparr>"

definition stop :: "analyzer \<Rightarrow> analyzer" where
  "stop a = a\<lparr>source := None, isPlaying := False\<rparr>"

datatype load_error = LoadFailed

text \<open>
  \<open>loadAudioFile\<close>: \<open>decoded\<close> is the duration of the decoded buffer, or \<open>None\<close> when
  the file cannot be decoded. A failure is rethrown to the caller; the context built by
  the retry stays.
\<close>

definition loadAudioFile :: "bool \<Rightarrow> jsnum option \<Rightarrow> analyzer \<Rightarrow> load_error option \<times> analyzer" where
  "loadAudioFile platform_ok decoded a =
     (let a1 = (if \<not> audioContext a then initAudioContext platform_ok a else a)
      in if \<not> audioContext a1 then (Some LoadFailed, a1)
         else (case decoded of
                 None \<Rightarrow> (Some LoadFailed, a1)
               | Some buffer \<Rightarrow> (None, (stop a1)\<lparr>source := Some buffer\<rparr>)))"

definition play :: "analyzer \<Rightarrow> analyzer" where
  "play a = (if source a = None \<or> \<not> audioContext a then a else a\<lparr>isPlaying := True\<rparr>)"

definition pause :: "analyzer \<Rightarrow> analyzer" where
  "pause a = (if source a \<noteq> None \<and> isPlaying a then a\<lparr>isPlaying := False\<rparr> else a)"

text \<open>
  One run of the \<open>analyze\<close> callback of \<open>startAnalysis\<close>: the analyser overwrites both
  buffers, in place, with the platform's current data.
\<close>

definition analyze :: "jsnum list \<Rightarrow> jsnum list \<Rightarrow> analyzer \<Rightarrow> analyzer" where
  "analyze freq time a =
     (if \<not> isPlaying a \<or> \<not> analyser a then a
      else a\<lparr>an_frequencyData :=
               map_option (\<lambda>b. take (length b) freq @ drop (length freq) b) (an_frequencyData a),
             an_timeDomainData :=
               map_option (\<lambda>b. take (length b) time @ drop (length time) b) (an_timeDomainData a)\<rparr>)"

definition calculateFrequencyBand :: "jsnum list \<Rightarrow> nat \<Rightarrow> nat \<Rightarrow> jsnum" where
  "calculateFrequencyBand data start end =
     (let len = length data;
          startIndex = nat \<lfloor>(real start / 100) * real len\<rfloor>;
          endIndex = nat \<lfloor>(real end / 100) * real len\<rfloor>;
          sum = foldl (\<lambda>sum i. jadd sum (jabs (ta_get data i))) (Fin 0) [startIndex..<endIndex]
      in jdiv sum (Fin (real endIndex - real startIndex)))"

definition calculateRMS :: "jsnum list \<Rightarrow> jsnum" where
  "calculateRMS data =
     (let sum = foldl (\<lambda>sum i. jadd sum (jmul (ta_get data i) (ta_get data i))) (Fin 0)
                  [0..<length data]
      in Math_sqrt (jdiv sum (Fin (real (length data)))))"

definition detectBeat :: "jsnum \<Rightarrow> bool" where
  "detectBeat vol = (let threshold = Fin 0.3 in jgt vol threshold)"

definition getAudioData :: "analyzer \<Rightarrow> audio_data" where
  "getAudioData a =
     (case (an_frequencyData a, an_timeDomainData a) of
        (Some fd, Some td) \<Rightarrow>
          (let bass = calculateFrequencyBand fd 0 10;
               mid = calculateFrequencyBand fd 10 50;
               treble = calculateFrequencyBand fd 50 100;
               vol = calculateRMS td;
               b = detectBeat vol
           in \<lparr>frequencyData = fd, timeDomainData = td, bassLevel = bass, midLevel = mid,
               trebleLevel = treble, volume = vol, beat = b\<rparr>)
      | _ \<Rightarrow> \<lparr>frequencyData = [], timeDomainData = [], bassLevel = Fin 0, midLevel = Fin 0,
              trebleLevel = Fin 0, volume = Fin 0, beat = False\<rparr>)"

text \<open>
  The analyzer states in which no audio has been loaded: the new analyzer, and what the
  operations other than a successful \<open>loadAudioFile\<close> make of such a state.
\<close>

inductive no_audio_loaded :: "analyzer \<Rightarrow> bool" where
  fresh: "no_audio_loaded (AudioAnalyzer_new platform_ok)"
| load_failed: "no_audio_loaded a \<Longrightarrow> fst (loadAudioFile platform_ok decoded a) \<noteq> None \<Longrightarrow>
    no_audio_loaded (snd (loadAudioFile platform_ok decoded a))"
| played: "no_audio_loaded a \<Longrightarrow> no_audio_loaded (play a)"
| paused: "no_audio_loaded a \<Longrightarrow> no_audio_loaded (pause a)"
| stopped: "no_audio_loaded a \<Longrightarrow> no_audio_loaded (stop a)"
| analyzed: "no_audio_loaded a \<Longrightarrow> no_audio_loaded (analyze freq time a)"

text \<open>What the analyzer holds while no audio has been loaded: no source, not playing,
  and buffers that are absent (no audio context) or still filled with zeros.\<close>

definition silent_state :: "analyzer \<Rightarrow> bool" where
  "silent_state a = (source a = None \<and> \<not> isPlaying a \<and>
     (if audioContext a
      then an_frequencyData a = Some (replicate frequencyBinCount (Fin 0)) \<and>
           an_timeDomainData a = Some (replicate frequencyBinCount (Fin 0))
      else an_frequencyData a = None \<and> an_timeDomainData a = None))"

section \<open>Effect rendering (AnimationEngine)\<close>

record animation_effect =
  eff_id :: string
  eff_name :: string
  eff_type :: string
  eff_intensity :: jsnum
  eff_color :: string
  eff_speed :: jsnum
  eff_size :: jsnum

datatype object_kind = MeshKind | PointsKind

record shader_uniforms =
  u_time :: jsnum
  u_intensity :: jsnum
  u_volume :: jsnum

text \<open>
  A graphical object (\<open>THREE.Object3D\<close>), with what the update functions read and
  write: whether it is a \<open>Mesh\<close> or a \<open>Points\<close>, the position array of its geometry,
  the colour array if the geometry has one, the uniforms if the material is a shader
  material, two rotation angles, and the scale animations started on it (target scale
  and duration in seconds). \<open>oid\<close> is the object's identity: the scene removes a child
  by identity.
\<close>

record object3d =
  oid :: nat
  kind :: object_kind
  positions :: "jsnum list"
  vertex_colors :: "jsnum list option"
  uniforms :: "shader_uniforms option"
  rot_x :: jsnum
  rot_y :: jsnum
  tweens :: "(jsnum \<times> jsnum) list"

datatype js_error = RangeError | TypeError

text \<open>
  The state of an \<open>AnimationEngine\<close>. \<open>effects\<close> is the \<open>Map\<close> from effect id to
  object, in insertion order. \<open>scene\<close> lists the identities of the effect objects among
  the scene's children (the lights and the children added by the marble physics are
  left out). \<open>config_effects\<close> is \<open>config.effects\<close>, an array the caller owns and
  changes. The vertex arrays that the geometry library computes for a plane, an
  icosahedron and a sphere are inputs, as is the random sequence.
\<close>

record engine =
  effects :: "(string \<times> object3d) list"
  scene :: "nat list"
  next_oid :: nat
  audioData :: "audio_data option"
  config_effects :: "animation_effect list"
  marblePhysics :: "physics option"
  PlaneGeometry :: "jsnum list"
  IcosahedronGeometry :: "jsnum \<Rightarrow> jsnum list"
  SphereGeometry :: "jsnum \<Rightarrow> jsnum list"
  e_rand_seq :: "nat \<Rightarrow> real"
  e_rand_ix :: nat

definition e_random :: "engine \<Rightarrow> jsnum \<times> engine" where
  "e_random e = (Fin (e_rand_seq e (e_rand_ix e)), e\<lparr>e_rand_ix := Suc (e_rand_ix e)\<rparr>)"

subsection \<open>The Map of effects\<close>

definition Map_get :: "(string \<times> 'v) list \<Rightarrow> string \<Rightarrow> 'v option" where
  "Map_get m k = map_of m k"

fun Map_set :: "(string \<times> 'v) list \<Rightarrow> string \<Rightarrow> 'v \<Rightarrow> (string \<times> 'v) list" where
  "Map_set [] k v = [(k, v)]"
| "Map_set (p # ps) k v = (if fst p = k then (k, v) # ps else p # Map_set ps k v)"

definition Map_delete :: "(string \<times> 'v) list \<Rightarrow> string \<Rightarrow> (string \<times> 'v) list" where
  "Map_delete m k = filter (\<lambda>p. fst p \<noteq> k) m"

subsection \<open>Creating effects\<close>

definition new_object :: "object_kind \<Rightarrow> jsnum list \<Rightarrow> jsnum list option \<Rightarrow>
    shader_uniforms option \<Rightarrow> engine \<Rightarrow> object3d \<times> engine" where
  "new_object k ps cs us e =
     (\<lparr>oid = next_oid e, kind = k, positions = ps, vertex_colors = cs, uniforms = us,
       rot_x = Fin 0, rot_y = Fin 0, tweens = []\<rparr>,
      e\<lparr>next_oid := Suc (next_oid e)\<rparr>)"

definition createWaveEffect :: "animation_effect \<Rightarrow> engine \<Rightarrow> object3d \<times> engine" where
  "createWaveEffect effect e = new_object MeshKind (PlaneGeometry e) None None e"

text \<open>
  \<open>new Float32Array(n)\<close>: the length is \<open>n\<close> truncated, 0 for NaN; a negative
  length, or one of \<open>2^53\<close> or more, is a \<open>RangeError\<close> (the smaller limit at which a
  given browser refuses to allocate is not modelled).
\<close>

definition Float32Array_new :: "jsnum \<Rightarrow> js_error + jsnum list" where
  "Float32Array_new n =
     (case n of
        NaN \<Rightarrow> Inr []
      | Fin a \<Rightarrow> (if a \<le> - 1 \<or> 2 ^ 53 \<le> a then Inl RangeError
                  else Inr (replicate (nat \<lfloor>a\<rfloor>) (Fin 0)))
      | _ \<Rightarrow> Inl RangeError)"

text \<open>The number of rounds of \<open>for (let i = 0; i < n; i++)\<close> for a finite or NaN bound.\<close>

definition loop_count :: "jsnum \<Rightarrow> nat" where
  "loop_count n = (case n of Fin a \<Rightarrow> nat \<lceil>a\<rceil> | _ \<Rightarrow> 0)"

definition particle_init ::
  "nat \<times> jsnum list \<times> jsnum list \<times> engine \<Rightarrow> nat \<times> jsnum list \<times> jsnum list \<times> engine" where
  "particle_init acc =
     (let (i, ps, cs, e) = acc;
          (r1, e1) = e_random e; (r2, e2) = e_random e1; (r3, e3) = e_random e2;
          ps1 = ta_set (ta_set (ta_set ps (i * 3) (jmul (jsub r1 (Fin 0.5)) (Fin 20)))
                  (i * 3 + 1) (jmul (jsub r2 (Fin 0.5)) (Fin 20)))
                  (i * 3 + 2) (jmul (jsub r3 (Fin 0.5)) (Fin 20));
          (r4, e4) = e_random e3; (r5, e5) = e_random e4; (r6, e6) = e_random e5;
          cs1 = ta_set (ta_set (ta_set cs (i * 3) r4) (i * 3 + 1) r5) (i * 3 + 2) r6
      in (Suc i, ps1, cs1, e6))"

definition createParticleEffect ::
  "animation_effect \<Rightarrow> engine \<Rightarrow> js_error + object3d \<times> engine" where
  "createParticleEffect effect e =
     (let particleCount = jmul (eff_size effect) (Fin 1000) in
      case Float32Array_new (jmul particleCount (Fin 3)) of
        Inl err \<Rightarrow> Inl err
      | Inr zeros \<Rightarrow>
          (let (n, ps, cs, e1) = (particle_init ^^ loop_count particleCount) (0, zeros, zeros, e)
           in Inr (new_object PointsKind ps (Some cs) None e1)))"

definition createGeometricEffect :: "animation_effect \<Rightarrow> engine \<Rightarrow> object3d \<times> engine" where
  "createGeometricEffect effect e =
     new_object MeshKind (IcosahedronGeometry e (eff_size effect)) None None e"

definition createFluidEffect :: "animation_effect \<Rightarrow> engine \<Rightarrow> object3d \<times> engine" where
  "createFluidEffect effect e =
     new_object MeshKind (SphereGeometry e (eff_size effect)) None
       (Some \<lparr>u_time = Fin 0, u_intensity = Fin 0, u_volume = Fin 0\<rparr>) e"

definition neural_init :: "nat \<times> jsnum list \<times> engine \<Rightarrow> nat \<times> jsnum list \<times> engine" where
  "neural_init acc =
     (let (i, ps, e) = acc;
          (r1, e1) = e_random e; (r2, e2) = e_random e1; (r3, e3) = e_random e2;
          ps1 = ta_set (ta_set (ta_set ps (i * 3) (jmul (jsub r1 (Fin 0.5)) (Fin 10)))
                  (i * 3 + 1) (jmul (jsub r2 (Fin 0.5)) (Fin 10)))
                  (i * 3 + 2) (jmul (jsub r3 (Fin 0.5)) (Fin 10))
      in (Suc i, ps1, e3))"

definition createNeuralEffect :: "animation_effect \<Rightarrow> engine \<Rightarrow> object3d \<times> engine" where
  "createNeuralEffect effect e =
     (let nodeCount = 50;
          (n, ps, e1) = (neural_init ^^ nodeCount) (0, replicate (nodeCount * 3) (Fin 0), e)
      in new_object PointsKind ps None None e1)"

text \<open>
  \<open>addEffect\<close>: the new object is stored under the effect's id and added to the scene.
  An exception leaves the engine as it was (it is thrown before anything is written).
\<close>

definition register_effect :: "animation_effect \<Rightarrow> object3d \<times> engine \<Rightarrow> engine" where
  "register_effect effect oe =
     (let (threeEffect, e) = oe
      in e\<lparr>effects := Map_set (effects e) (eff_id effect) threeEffect,
            scene := scene e @ [oid threeEffect]\<rparr>)"

definition addEffect :: "animation_effect \<Rightarrow> engine \<Rightarrow> js_error option \<times> engine" where
  "addEffect effect e =
     (if eff_type effect = ''marble'' then (None, e)
      else if eff_type effect = ''wave''
        then (None, register_effect effect (createWaveEffect effect e))
      else if eff_type effect = ''particle''
        then (case createParticleEffect effect e of
                Inl err \<Rightarrow> (Some err, e)
              | Inr oe \<Rightarrow> (None, register_effect effect oe))
      else if eff_type effect = ''geometric''
        then (None, register_effect effect (createGeometricEffect effect e))
      else if eff_type effect = ''fluid''
        then (None, register_effect effect (createFluidEffect effect e))
      else if eff_type effect = ''neural''
        then (None, register_effect effect (createNeuralEffect effect e))
      else (None, e))"

definition removeEffect :: "string \<Rightarrow> engine \<Rightarrow> engine" where
  "removeEffect ident e =
     (let e1 = (case Map_get (effects e) ident of
                  Some effect \<Rightarrow> e\<lparr>scene := filter (\<lambda>c. c \<noteq> oid effect) (scene e),
                                   effects := Map_delete (effects e) ident\<rparr>
                | None \<Rightarrow> e)
      in case find (\<lambda>c. eff_id c = ident) (config_effects e1) of
           Some effectConfig \<Rightarrow>
             (if eff_type effectConfig = ''marble''
              then e1\<lparr>marblePhysics := map_option clearMarbles (marblePhysics e1)\<rparr>
              else e1)
         | None \<Rightarrow> e1)"

subsection \<open>Updating effects\<close>

text \<open>
  The indices \<open>0, 3, 6, ...\<close> below the length of an array, as visited by
  \<open>for (let i = 0; i < positions.length; i += 3)\<close>.
\<close>

definition every_third :: "jsnum list \<Rightarrow> nat list" where
  "every_third xs = map (\<lambda>k. 3 * k) [0..<(length xs + 2) div 3]"

text \<open>\<open>Date.now() * 0.001\<close>.\<close>

definition seconds :: "int \<Rightarrow> jsnum" where
  "seconds now = jmul (Fin (real_of_int now)) (Fin 0.001)"

definition wave_vertex :: "jsnum \<Rightarrow> int \<Rightarrow> jsnum list \<Rightarrow> nat \<Rightarrow> jsnum list" where
  "wave_vertex bass now ps i =
     (let x = ta_get ps i;
          z = ta_get ps (i + 2);
          waveHeight = jmul (jmul (Math_sin (jadd (jmul x (Fin 0.1)) (seconds now))) bass) (Fin 2)
      in ta_set ps (i + 2) (jadd z waveHeight))"

definition updateWaveEffect :: "object3d \<Rightarrow> jsnum \<Rightarrow> jsnum \<Rightarrow> int \<Rightarrow> object3d" where
  "updateWaveEffect effect bass mid now =
     (if kind effect = MeshKind
      then effect\<lparr>positions := foldl (wave_vertex bass now) (positions effect)
                                   (every_third (positions effect))\<rparr>
      else effect)"

definition particle_vertex ::
  "jsnum \<Rightarrow> bool \<Rightarrow> jsnum list \<times> jsnum list \<times> engine \<Rightarrow> nat \<Rightarrow> jsnum list \<times> jsnum list \<times> engine" where
  "particle_vertex vol b acc i =
     (let (ps, cs, e) = acc;
          intensity = jmul vol (Fin 10);
          (r, e1) = e_random e;
          ps1 = ta_set ps (i + 1)
                  (jadd (ta_get ps (i + 1)) (jmul (jmul (jsub r (Fin 0.5)) intensity) (Fin 0.1)))
      in if b then
           (let (r1, e2) = e_random e1; (r2, e3) = e_random e2; (r3, e4) = e_random e3
            in (ps1, ta_set (ta_set (ta_set cs i r1) (i + 1) r2) (i + 2) r3, e4))
         else (ps1, cs, e1))"

text \<open>
  \<open>updateParticleEffect\<close> reads \<open>geometry.attributes.color.array\<close> before its loop: on
  a \<open>Points\<close> whose geometry has no colour attribute this is a \<open>TypeError\<close>.
\<close>

definition updateParticleEffect ::
  "object3d \<Rightarrow> jsnum \<Rightarrow> bool \<Rightarrow> engine \<Rightarrow> js_error + object3d \<times> engine" where
  "updateParticleEffect effect vol b e =
     (if kind effect = PointsKind then
        (case vertex_colors effect of
           None \<Rightarrow> Inl TypeError
         | Some cs \<Rightarrow>
             (let (ps1, cs1, e1) = foldl (particle_vertex vol b) (positions effect, cs, e)
                                     (every_third (positions effect))
              in Inr (effect\<lparr>positions := ps1, vertex_colors := Some cs1\<rparr>, e1)))
      else Inr (effect, e))"

definition updateGeometricEffect :: "object3d \<Rightarrow> jsnum \<Rightarrow> bool \<Rightarrow> object3d" where
  "updateGeometricEffect effect treble b =
     (if kind effect = MeshKind then
        (let effect1 = effect\<lparr>rot_x := jadd (rot_x effect) (jmul treble (Fin 0.1)),
                               rot_y := jadd (rot_y effect) (jmul treble (Fin 0.05))\<rparr>
         in if b then effect1\<lparr>tweens := tweens effect1 @ [(Fin 1.2, Fin 0.1), (Fin 1, Fin 0.3)]\<rparr>
            else effect1)
      else effect)"

definition updateFluidEffect :: "object3d \<Rightarrow> jsnum \<Rightarrow> jsnum \<Rightarrow> int \<Rightarrow> object3d" where
  "updateFluidEffect effect mid vol now =
     (if kind effect = MeshKind then
        (case uniforms effect of
           Some u \<Rightarrow> effect\<lparr>uniforms :=
             Some (u\<lparr>u_time := seconds now, u_intensity := mid, u_volume := vol\<rparr>)\<rparr>
         | None \<Rightarrow> effect)
      else effect)"

definition neural_vertex :: "jsnum \<Rightarrow> jsnum \<Rightarrow> int \<Rightarrow> jsnum list \<Rightarrow> nat \<Rightarrow> jsnum list" where
  "neural_vertex bass treble now ps i =
     (let nodeIndex = i div 3;
          freq = jadd bass treble
      in ta_set ps (i + 2)
           (jmul (Math_sin (jadd (jmul (Fin (real nodeIndex)) (Fin 0.1)) (seconds now))) freq))"

definition updateNeuralEffect :: "object3d \<Rightarrow> jsnum \<Rightarrow> jsnum \<Rightarrow> int \<Rightarrow> object3d" where
  "updateNeuralEffect effect bass treble now =
     (if kind effect = MeshKind
      then effect\<lparr>positions := foldl (neural_vertex bass treble now) (positions effect)
                                   (every_third (positions effect))\<rparr>
      else effect)"

text \<open>
  \<open>updateEffect(effect, id)\<close>: the \<open>switch\<close> is on the key under which the object is
  stored in the Map. The object is mutated in place, so the result is stored back under
  the same key. An exception leaves the engine as the earlier updates made it.
\<close>

definition store_effect :: "string \<Rightarrow> object3d \<Rightarrow> engine \<Rightarrow> engine" where
  "store_effect ident effect e = e\<lparr>effects := Map_set (effects e) ident effect\<rparr>"

definition updateEffect :: "int \<Rightarrow> object3d \<Rightarrow> string \<Rightarrow> engine \<Rightarrow> js_error option \<times> engine" where
  "updateEffect now effect ident e =
     (case audioData e of
        None \<Rightarrow> (None, e)
      | Some ad \<Rightarrow>
          (if ident = ''wave''
             then (None, store_effect ident (updateWaveEffect effect (bassLevel ad) (midLevel ad) now) e)
           else if ident = ''particle''
             then (case updateParticleEffect effect (volume ad) (beat ad) e of
                     Inl err \<Rightarrow> (Some err, e)
                   | Inr (effect1, e1) \<Rightarrow> (None, store_effect ident effect1 e1))
           else if ident = ''geometric''
             then (None, store_effect ident (updateGeometricEffect effect (trebleLevel ad) (beat ad)) e)
           else if ident = ''fluid''
             then (None, store_effect ident (updateFluidEffect effect (midLevel ad) (volume ad) now) e)
           else if ident = ''neural''
             then (None, store_effect ident
                           (updateNeuralEffect effect (bassLevel ad) (trebleLevel ad) now) e)
           else (None, e)))"

text \<open>\<open>effects.forEach\<close>: the entries are visited in insertion order.\<close>

fun forEach_effect :: "int \<Rightarrow> (string \<times> object3d) list \<Rightarrow> engine \<Rightarrow> js_error option \<times> engine" where
  "forEach_effect now [] e = (None, e)"
| "forEach_effect now ((ident, effect) # rest) e =
     (case updateEffect now effect ident e of
        (Some err, e1) \<Rightarrow> (Some err, e1)
      | (None, e1) \<Rightarrow> forEach_effect now rest e1)"

definition updateEffects :: "int \<Rightarrow> engine \<Rightarrow> js_error option \<times> engine" where
  "updateEffects now e =
     (if audioData e = None then (None, e) else forEach_effect now (effects e) e)"

definition updateAudioData :: "int \<Rightarrow> audio_data \<Rightarrow> engine \<Rightarrow> js_error option \<times> engine" where
  "updateAudioData now ad e =
     (case updateEffects now (e\<lparr>audioData := Some ad\<rparr>) of
        (Some err, e1) \<Rightarrow> (Some err, e1)
      | (None, e1) \<Rightarrow>
          (None, e1\<lparr>marblePhysics :=
                      map_option (spawnMarbleFromAudio (volume ad) (bassLevel ad))
                        (marblePhysics e1)\<rparr>))"

text \<open>
  One run of the \<open>animate\<close> callback of \<open>start\<close>, \<open>deltaTime\<close> seconds after the
  previous one: the physics step gets the raw frequency array and the volume of the
  latest audio data.
\<close>

definition animate :: "jsnum \<Rightarrow> int \<Rightarrow> engine \<Rightarrow> engine" where
  "animate deltaTime now e =
     (case (marblePhysics e, audioData e) of
        (Some ph, Some ad) \<Rightarrow>
          e\<lparr>marblePhysics :=
              Some (update deltaTime
                      (Some \<lparr>pa_frequencyData = frequencyData ad, pa_volume = volume ad\<rparr>) now ph)\<rparr>
      | _ \<Rightarrow> e)"

section \<open>Well-formed physics states and example states\<close>

text \<open>The part of a key that the collision test and the bounce read; no operation changes it.\<close>

definition key_box :: "xylophone_key \<Rightarrow> vec3 \<times> jsnum \<times> jsnum" where
  "key_box key = (k_position key, width key, height key)"

text \<open>
  What the class maintains: the keys have the geometry given by the constructor, and
  every marble of the array is active and has the radius given by \<open>createMarble\<close>.
\<close>

definition wf_physics :: "physics \<Rightarrow> bool" where
  "wf_physics s =
     (map key_box (keys s) = map key_box (map make_key [0..<7]) \<and>
      list_all (\<lambda>m. isActive m \<and> radius m = Fin 0.3) (marbles s))"

text \<open>A marble as \<open>createMarble\<close> builds it, at a given position and velocity.\<close>

definition marble_at :: "vec3 \<Rightarrow> vec3 \<Rightarrow> marble" where
  "marble_at p v =
     \<lparr>position = p, velocity = v, acceleration = Vector3 (Fin 0) (Fin 0) (Fin 0),
      radius = Fin 0.3, mass = Fin 1, bounceCount = 0, isActive = True\<rparr>"

text \<open>A new \<open>MarblePhysics\<close> holding the given marbles and their meshes.\<close>

definition physics_with :: "(nat \<Rightarrow> real) \<Rightarrow> marble list \<Rightarrow> physics" where
  "physics_with rs ms =
     (MarblePhysics_new rs)
       \<lparr>marbles := ms,
        marbleMeshes := map (\<lambda>m. \<lparr>mesh_position = position m, rotation_x = Fin 0,
                                    rotation_z = Fin 0\<rparr>) ms\<rparr>"

text \<open>
  The collision test in the words of the specification: the marble's extent, centre
  plus and minus radius on X and on Y, overlaps the key's footprint.
\<close>

definition extent_overlaps_key :: "marble \<Rightarrow> xylophone_key \<Rightarrow> bool" where
  "extent_overlaps_key marble key =
     (jle (jsub (v_x (position marble)) (radius marble))
          (jadd (v_x (k_position key)) (jdiv (width key) (Fin 2))) \<and>
      jge (jadd (v_x (position marble)) (radius marble))
          (jsub (v_x (k_position key)) (jdiv (width key) (Fin 2))) \<and>
      jle (jsub (v_y (position marble)) (radius marble))
          (jadd (v_y (k_position key)) (jdiv (height key) (Fin 2))) \<and>
      jge (jadd (v_y (position marble)) (radius marble))
          (jsub (v_y (k_position key)) (jdiv (height key) (Fin 2))))"


text \<open>
  The body of the loop of \<open>update\<close> without its last statement, the removal: the
  marble at index \<open>i\<close> is moved, collides, and is drawn, but stays in the array.
  \<open>moved_marbles\<close> is the array after the loop with this body, that is, every marble of
  the step as it is when the test for the removal reads it.
\<close>

definition move_marble ::
  "jsnum \<Rightarrow> physics_audio option \<Rightarrow> int \<Rightarrow> nat \<Rightarrow> physics \<Rightarrow> physics" where
  "move_marble dt audio now i s =
     (if \<not> isActive (marbles s ! i) then s
      else addToTrail i (updateMarbleMesh dt i
             (checkKeyCollisions i now (integrate_marble dt audio i s))))"

definition moved_marbles ::
  "jsnum \<Rightarrow> physics_audio option \<Rightarrow> int \<Rightarrow> physics \<Rightarrow> marble list" where
  "moved_marbles dt audio now s =
     marbles (foldl (\<lambda>s i. move_marble dt audio now i s) s
                (rev [0..<length (marbles s)]))"

text \<open>
  Two states agree on everything that the round for the marble at index \<open>i\<close> reads to
  move that marble: the marble itself, the keys and the random sequence.
\<close>

definition same_view :: "nat \<Rightarrow> physics \<Rightarrow> physics \<Rightarrow> bool" where
  "same_view i s t =
     (i < length (marbles s) \<and> i < length (marbles t) \<and> marbles s ! i = marbles t ! i \<and>
      keys s = keys t \<and> rand_seq s = rand_seq t \<and> rand_ix s = rand_ix t)"

text \<open>
  In a step without audio the marble at index \<open>i\<close> touches no key: after its integration
  no key passes the collision test.
\<close>

definition no_collision_at :: "jsnum \<Rightarrow> nat \<Rightarrow> physics \<Rightarrow> bool" where
  "no_collision_at dt i s =
     list_all (\<lambda>key. \<not> key_collision_test (marbles (integrate_marble dt None i s) ! i) key)
       (keys s)"

text \<open>A random sequence that is constantly 0.5: every random perturbation is zero.\<close>

definition no_jitter :: "nat \<Rightarrow> real" where
  "no_jitter n = 1 / 2"

section \<open>Example engine states\<close>

text \<open>
  An engine without effects, with a given plane vertex array, effect configuration and
  marble physics.
\<close>

definition engine_with ::
  "jsnum list \<Rightarrow> animation_effect list \<Rightarrow> physics option \<Rightarrow> engine" where
  "engine_with plane cfg ph =
     \<lparr>effects = [], scene = [], next_oid = 0, audioData = None, config_effects = cfg,
      marblePhysics = ph, PlaneGeometry = plane, IcosahedronGeometry = (\<lambda>r. []),
      SphereGeometry = (\<lambda>r. []), e_rand_seq = no_jitter, e_rand_ix = 0\<rparr>"

text \<open>An effect as the effect selector builds it: a variant and a generated id.\<close>

definition effect_of :: "string \<Rightarrow> string \<Rightarrow> animation_effect" where
  "effect_of ident variant =
     \<lparr>eff_id = ident, eff_name = variant, eff_type = variant, eff_intensity = Fin 0.8,
      eff_color = ''#3b82f6'', eff_speed = Fin 1, eff_size = Fin 1\<rparr>"

text \<open>Audio data with bass level 0.5 and a beat.\<close>

definition loud_audio :: audio_data where
  "loud_audio =
     \<lparr>frequencyData = [], timeDomainData = [], bassLevel = Fin 0.5, midLevel = Fin 0.5,
      trebleLevel = Fin 0.5, volume = Fin 0.5, beat = True\<rparr>"

section \<open>Properties of the feature extraction\<close>

lemma zero_sum:
  "e \<le> n \<Longrightarrow>
   foldl (\<lambda>sum i. jadd sum (jabs (ta_get (replicate n (Fin 0)) i))) (Fin 0) [b..<e] = Fin 0"
  by (induction e) (auto simp: ta_get_def)

lemma zero_sq_sum:
  "e \<le> n \<Longrightarrow>
   foldl (\<lambda>sum i. jadd sum (jmul (ta_get (replicate n (Fin 0)) i)
                                   (ta_get (replicate n (Fin 0)) i))) (Fin 0) [b..<e] = Fin 0"
  by (induction e) (auto simp: ta_get_def)

lemma percent_index_le: "q \<le> 100 \<Longrightarrow> nat \<lfloor>(real q / 100) * real n\<rfloor> \<le> n"
proof -
  assume "q \<le> 100"
  then have "real q / 100 \<le> 1" by simp
  then have "(real q / 100) * real n \<le> 1 * real n"
    by (intro mult_right_mono) simp_all
  then have "\<lfloor>(real q / 100) * real n\<rfloor> \<le> int n"
    by (simp add: floor_le_iff)
  then show ?thesis by simp
qed

lemma band_of_zeros:
  "q \<le> 100 \<Longrightarrow> calculateFrequencyBand (replicate n (Fin 0)) p q =
     jdiv (Fin 0) (Fin (real (nat \<lfloor>(real q / 100) * real n\<rfloor>)
                        - real (nat \<lfloor>(real p / 100) * real n\<rfloor>)))"
  unfolding calculateFrequencyBand_def Let_def
  by (simp only: length_replicate zero_sum [OF percent_index_le])

lemma band_zero_bass: "calculateFrequencyBand (replicate frequencyBinCount (Fin 0)) 0 10 = Fin 0"
  by (simp add: band_of_zeros frequencyBinCount_def fftSize_def)

lemma band_zero_mid: "calculateFrequencyBand (replicate frequencyBinCount (Fin 0)) 10 50 = Fin 0"
  by (simp add: band_of_zeros frequencyBinCount_def fftSize_def)

lemma band_zero_treble:
  "calculateFrequencyBand (replicate frequencyBinCount (Fin 0)) 50 100 = Fin 0"
  by (simp add: band_of_zeros frequencyBinCount_def fftSize_def)

lemma rms_of_zeros: "calculateRMS (replicate n (Fin 0)) = Math_sqrt (jdiv (Fin 0) (Fin (real n)))"
  unfolding calculateRMS_def Let_def
  by (simp only: length_replicate zero_sq_sum [OF order_refl])

lemma rms_zero: "calculateRMS (replicate frequencyBinCount (Fin 0)) = Fin 0"
  by (simp add: rms_of_zeros frequencyBinCount_def fftSize_def)

lemma silent_init: "silent_state a \<Longrightarrow> \<not> audioContext a \<Longrightarrow> silent_state (initAudioContext ok a)"
  by (simp add: silent_state_def initAudioContext_def)

lemma no_audio_silent: "no_audio_loaded a \<Longrightarrow> silent_state a"
proof (induction rule: no_audio_loaded.induct)
  case (fresh platform_ok)
  show ?case by (simp add: AudioAnalyzer_new_def silent_state_def initAudioContext_def)
next
  case (load_failed a platform_ok decoded)
  then show ?case
    by (auto simp: loadAudioFile_def Let_def silent_init split: if_splits option.splits)
next
  case (played a)
  then show ?case by (simp add: play_def silent_state_def)
next
  case (paused a)
  then show ?case by (simp add: pause_def silent_state_def)
next
  case (stopped a)
  then show ?case by (simp add: stop_def silent_state_def)
next
  case (analyzed a freq time)
  then show ?case by (simp add: analyze_def silent_state_def)
qed

text \<open>
  C6. In every feature vector that \<open>getAudioData\<close> returns, the beat flag is exactly
  ``volume > 0.3'': it is computed from the current volume and the constant 0.3 alone.
  On a finite volume this is the comparison of reals, and a NaN volume gives no beat.
\<close>

theorem beat_is_volume_above_threshold:
  "beat (getAudioData a) = jgt (volume (getAudioData a)) (Fin 0.3) \<and>
   detectBeat (Fin v) = (v > 0.3) \<and> \<not> detectBeat NaN"
  by (simp add: getAudioData_def detectBeat_def jgt_def Let_def split: option.splits)

text \<open>
  C9, as stated, fails where the audio context was built but no audio has been loaded:
  the feature vector then carries the two buffers of 1024 zeros, not empty buffers.
\<close>

theorem no_audio_buffers_not_empty:
  "no_audio_loaded (AudioAnalyzer_new True) \<and>
   frequencyData (getAudioData (AudioAnalyzer_new True)) \<noteq> [] \<and>
   timeDomainData (getAudioData (AudioAnalyzer_new True)) \<noteq> []"
proof -
  have h: "no_audio_loaded (AudioAnalyzer_new True)"
    by (rule no_audio_loaded.fresh)
  have f: "frequencyData (getAudioData (AudioAnalyzer_new True))
             = replicate frequencyBinCount (Fin 0)"
    by (simp add: AudioAnalyzer_new_def initAudioContext_def getAudioData_def Let_def)
  have t: "timeDomainData (getAudioData (AudioAnalyzer_new True))
             = replicate frequencyBinCount (Fin 0)"
    by (simp add: AudioAnalyzer_new_def initAudioContext_def getAudioData_def Let_def)
  have n: "replicate frequencyBinCount (Fin 0) \<noteq> []"
    by (simp add: frequencyBinCount_def fftSize_def)
  from h f t n show ?thesis by simp
qed

text \<open>
  C9, amended. While no audio has been loaded, \<open>getAudioData\<close> returns zero band
  levels, zero volume and no beat; the raw buffers are empty if the audio context could
  not be built, and are the analyser's buffers of \<open>frequencyBinCount\<close> zeros if it
  could. \<open>getAudioData\<close> has no failing branch: it returns a feature vector in every
  state.
\<close>

theorem no_audio_feature_vector:
  assumes "no_audio_loaded a"
  shows "getAudioData a =
     \<lparr>frequencyData = (if audioContext a then replicate frequencyBinCount (Fin 0) else []),
      timeDomainData = (if audioContext a then replicate frequencyBinCount (Fin 0) else []),
      bassLevel = Fin 0, midLevel = Fin 0, trebleLevel = Fin 0, volume = Fin 0, beat = False\<rparr>"
proof -
  have s: "silent_state a" using assms by (rule no_audio_silent)
  show ?thesis
  proof (cases "audioContext a")
    case True
    with s show ?thesis
      by (simp add: silent_state_def getAudioData_def band_zero_bass band_zero_mid
          band_zero_treble rms_zero detectBeat_def jgt_def Let_def)
  next
    case False
    with s show ?thesis by (simp add: silent_state_def getAudioData_def)
  qed
qed

theorem no_audio_feature_vector_witness:
  "no_audio_loaded (AudioAnalyzer_new False) \<and>
   getAudioData (AudioAnalyzer_new False) =
     \<lparr>frequencyData = [], timeDomainData = [],
      bassLevel = Fin 0, midLevel = Fin 0, trebleLevel = Fin 0, volume = Fin 0, beat = False\<rparr>"
proof -
  have h: "no_audio_loaded (AudioAnalyzer_new False)"
    by (rule no_audio_loaded.fresh)
  have c: "\<not> audioContext (AudioAnalyzer_new False)"
    by (simp add: AudioAnalyzer_new_def initAudioContext_def)
  from no_audio_feature_vector [OF h] c h show ?thesis by simp
qed

section \<open>Properties of the marble physics\<close>

subsection \<open>What each part of the step changes\<close>

lemma hit_particle_snd:
  "snd (hit_particle p (ps, s)) = s\<lparr>rand_ix := rand_ix s + 3\<rparr>"
  by (simp add: hit_particle_def Math_random_def)

lemma hit_particle_funpow:
  "snd ((hit_particle p ^^ n) (ps, s)) = s\<lparr>rand_ix := rand_ix s + 3 * n\<rparr>"
proof (induction n)
  case 0
  show ?case by simp
next
  case (Suc n)
  obtain ps' s' where eq: "(hit_particle p ^^ n) (ps, s) = (ps', s')"
    by (cases "(hit_particle p ^^ n) (ps, s)")
  with Suc have "s' = s\<lparr>rand_ix := rand_ix s + 3 * n\<rparr>" by simp
  then show ?case
    by (simp add: eq hit_particle_snd)
qed

lemma createHitEffect_eq:
  "createHitEffect p c s =
     s\<lparr>rand_ix := rand_ix s + 60,
       hitEffects := hitEffects s @
         [\<lparr>burst_positions = fst ((hit_particle p ^^ 20) ([], s)), burst_color = c\<rparr>]\<rparr>"
proof -
  have "snd ((hit_particle p ^^ 20) ([], s)) = s\<lparr>rand_ix := rand_ix s + 60\<rparr>"
    by (simp only: hit_particle_funpow) simp
  then show ?thesis
    by (simp add: createHitEffect_def split_beta)
qed

lemma handleKeyCollision_marbles:
  "i < length (marbles s) \<Longrightarrow>
   marbles (handleKeyCollision i k now s) =
     (marbles s)[i := (marbles s ! i)
       \<lparr>position := (position (marbles s ! i))
          \<lparr>v_y := jadd (jadd (v_y (k_position (keys s ! k))) (jdiv (height (keys s ! k)) (Fin 2)))
                    (radius (marbles s ! i))\<rparr>,
        velocity := (velocity (marbles s ! i))
          \<lparr>v_y := jmul (jabs (v_y (velocity (marbles s ! i)))) bounceDamping,
           v_x := jadd (v_x (velocity (marbles s ! i)))
                    (jmul (jsub (Fin (rand_seq s (rand_ix s))) (Fin 0.5)) (Fin 2))\<rparr>,
        bounceCount := Suc (bounceCount (marbles s ! i))\<rparr>]"
  by (simp add: handleKeyCollision_def Let_def Math_random_def createHitEffect_eq playNote_def)

lemma handleKeyCollision_keys:
  "keys (handleKeyCollision i k now s) = (keys s)[k := (keys s ! k)\<lparr>isHit := True, hitTime := now\<rparr>]"
  by (simp add: handleKeyCollision_def Let_def Math_random_def createHitEffect_eq playNote_def)


lemma collision_x_in_key: "key_collision_test m key \<Longrightarrow> x_in_key m key"
  by (simp add: key_collision_test_def x_in_key_def)

lemma fold_no_hit:
  "\<forall>j \<in> set js. \<not> x_in_key (marbles s ! i) (keys s ! j) \<Longrightarrow>
   foldl (\<lambda>s k. if key_collision_test (marbles s ! i) (keys s ! k)
                 then handleKeyCollision i k now s else s) s js = s"
  by (induction js) (auto dest: collision_x_in_key)

lemma handleKeyCollision_x_in_key:
  assumes "i < length (marbles s)" "j \<noteq> k"
  shows "x_in_key (marbles (handleKeyCollision i k now s) ! i) (keys (handleKeyCollision i k now s) ! j)
         = x_in_key (marbles s ! i) (keys s ! j)"
  using assms by (simp add: handleKeyCollision_marbles handleKeyCollision_keys x_in_key_def)

lemma checkKeyCollisions_single:
  assumes i: "i < length (marbles s)" and k: "k < length (keys s)"
    and hit: "key_collision_test (marbles s ! i) (keys s ! k)"
    and others: "\<forall>j < length (keys s). j \<noteq> k \<longrightarrow> \<not> x_in_key (marbles s ! i) (keys s ! j)"
  shows "checkKeyCollisions i now s = handleKeyCollision i k now s"
proof -
  let ?f = "\<lambda>s k. if key_collision_test (marbles s ! i) (keys s ! k)
                   then handleKeyCollision i k now s else s"
  let ?s' = "handleKeyCollision i k now s"
  have split: "[0..<length (keys s)] = [0..<k] @ k # [Suc k..<length (keys s)]"
    using k by (metis le0 upt_add_eq_append upt_conv_Cons le_add_diff_inverse less_imp_le_nat add.commute)
  have before: "foldl ?f s [0..<k] = s"
    using others k by (intro fold_no_hit) auto
  have len: "length (keys ?s') = length (keys s)"
    by (simp add: handleKeyCollision_keys)
  have after: "foldl ?f ?s' [Suc k..<length (keys s)] = ?s'"
  proof (intro fold_no_hit ballI)
    fix j assume "j \<in> set [Suc k..<length (keys s)]"
    then have "j < length (keys s)" "j \<noteq> k" by auto
    with others i show "\<not> x_in_key (marbles ?s' ! i) (keys ?s' ! j)"
      by (simp add: handleKeyCollision_x_in_key)
  qed
  show ?thesis
    unfolding checkKeyCollisions_def
    by (subst split) (simp add: before hit after)
qed


lemma keys_new: "keys (MarblePhysics_new rs) = map make_key [0..<7]"
  by (simp add: MarblePhysics_new_def setupXylophoneKeys_def note_names_def upt_rec)

lemma keys_physics_with [simp]: "keys (physics_with rs ms) = map make_key [0..<7]"
  by (simp add: physics_with_def keys_new)

lemma marbles_physics_with [simp]: "marbles (physics_with rs ms) = ms"
  by (simp add: physics_with_def)

lemma x_in_make_key:
  "v_x (position m) = Fin x \<Longrightarrow>
   x_in_key m (make_key j) = (real j * 2 - 27 / 4 \<le> x \<and> x \<le> real j * 2 - 21 / 4)"
  by (simp add: x_in_key_def make_key_def Vector3_def jge_def jsub_def)

lemma make_key_x_unique:
  assumes "v_x (position m) = Fin x" "x_in_key m (make_key j)" "x_in_key m (make_key k)"
  shows "j = k"
proof -
  from assms have "real j * 2 - 27 / 4 \<le> real k * 2 - 21 / 4"
    "real k * 2 - 27 / 4 \<le> real j * 2 - 21 / 4"
    by (simp_all add: x_in_make_key)
  then have "real j < real k + 1" "real k < real j + 1" by linarith+
  then have "j < k + 1" "k < j + 1" by (metis of_nat_less_iff of_nat_add of_nat_1)+
  then show ?thesis by simp
qed

lemma integrate_marble_free:
  "i < length (marbles s) \<Longrightarrow>
   integrate_marble dt None i s =
     s\<lparr>marbles := (marbles s)[i := (marbles s ! i)
        \<lparr>acceleration := gravity,
         velocity := multiplyScalar (vec_add (velocity (marbles s ! i))
               (multiplyScalar gravity dt)) friction,
         position := vec_add (position (marbles s ! i))
            (multiplyScalar (multiplyScalar (vec_add (velocity (marbles s ! i))
               (multiplyScalar gravity dt)) friction) dt)\<rparr>]\<rparr>"
  by (simp add: integrate_marble_def Let_def)

lemma updateMarbleMesh_fields [simp]:
  "marbles (updateMarbleMesh dt i s) = marbles s"
  "keys (updateMarbleMesh dt i s) = keys s"
  "synthNotes (updateMarbleMesh dt i s) = synthNotes s"
  by (simp_all add: updateMarbleMesh_def Let_def)

lemma addToTrail_fields [simp]:
  "marbles (addToTrail i s) = marbles s"
  "keys (addToTrail i s) = keys s"
  "synthNotes (addToTrail i s) = synthNotes s"
  by (simp_all add: addToTrail_def Let_def)

lemma removeIfFallen_fields [simp]:
  "keys (removeIfFallen i s) = keys s"
  "synthNotes (removeIfFallen i s) = synthNotes s"
  by (simp_all add: removeIfFallen_def Let_def)

lemma updateTrail_fields [simp]:
  "marbles (updateTrail s) = marbles s"
  "keys (updateTrail s) = keys s"
  "synthNotes (updateTrail s) = synthNotes s"
  by (simp_all add: updateTrail_def)

lemma updateKeyAnimation_fields [simp]:
  "marbles (updateKeyAnimation now i s) = marbles s"
  "synthNotes (updateKeyAnimation now i s) = synthNotes s"
  "length (keys (updateKeyAnimation now i s)) = length (keys s)"
  by (simp_all add: updateKeyAnimation_def Let_def)

lemma fold_key_animation:
  "marbles (foldl (\<lambda>s i. updateKeyAnimation now i s) s js) = marbles s \<and>
   synthNotes (foldl (\<lambda>s i. updateKeyAnimation now i s) s js) = synthNotes s"
  by (induction js arbitrary: s) simp_all

lemma updateKeyAnimations_fields [simp]:
  "marbles (updateKeyAnimations now s) = marbles s"
  "synthNotes (updateKeyAnimations now s) = synthNotes s"
  by (simp_all add: updateKeyAnimations_def fold_key_animation)

lemma handleKeyCollision_synthNotes:
  "i < length (marbles s) \<Longrightarrow>
   synthNotes (handleKeyCollision i k now s) =
     synthNotes s @ [(frequency (keys s ! k),
       Math_min (Fin 1.0) (jdiv (jabs (or_zero (v_y (velocity
         (last ((marbles s)[i := (marbles s ! i)
           \<lparr>velocity := (velocity (marbles s ! i))
              \<lparr>v_y := jmul (jabs (v_y (velocity (marbles s ! i)))) bounceDamping\<rparr>\<rparr>])))))) (Fin 10)))]"
  by (cases "i = length (marbles s) - 1")
     (auto simp add: handleKeyCollision_def Let_def Math_random_def createHitEffect_eq playNote_def
       last_list_update last_conv_nth)

subsection \<open>The bounce\<close>

text \<open>
  C4. When the marble at index \<open>i\<close> passes the collision test for key \<open>k\<close>, and its
  centre is within the width of no other key (the keys of the constructor do not
  overlap), then after the collision check of the step its \<open>position.y\<close> is
  \<open>key.position.y + key.height / 2 + marble.radius\<close>, its vertical velocity is the
  absolute value of the velocity it arrived with times 0.7, and its \<open>bounceCount\<close> is
  one more than before.
\<close>

theorem collision_response:
  assumes "i < length (marbles s)" and "k < length (keys s)"
    and "key_collision_test (marbles s ! i) (keys s ! k)"
    and "\<forall>j < length (keys s). j \<noteq> k \<longrightarrow> \<not> x_in_key (marbles s ! i) (keys s ! j)"
  shows "v_y (position (marbles (checkKeyCollisions i now s) ! i)) =
           jadd (jadd (v_y (k_position (keys s ! k))) (jdiv (height (keys s ! k)) (Fin 2)))
                (radius (marbles s ! i)) \<and>
         v_y (velocity (marbles (checkKeyCollisions i now s) ! i)) =
           jmul (jabs (v_y (velocity (marbles s ! i)))) (Fin 0.7) \<and>
         bounceCount (marbles (checkKeyCollisions i now s) ! i) = bounceCount (marbles s ! i) + 1"
  using assms
  by (simp add: checkKeyCollisions_single [OF assms] handleKeyCollision_marbles bounceDamping_def)

theorem collision_response_witness:
  "(0::nat) < length (marbles (physics_with no_jitter
      [marble_at (Vector3 (Fin 0) (Fin 0.4) (Fin 0)) (Vector3 (Fin 0) (Fin (- 5)) (Fin 0))])) \<and>
   (3::nat) < length (keys (physics_with no_jitter
      [marble_at (Vector3 (Fin 0) (Fin 0.4) (Fin 0)) (Vector3 (Fin 0) (Fin (- 5)) (Fin 0))])) \<and>
   key_collision_test
     (marble_at (Vector3 (Fin 0) (Fin 0.4) (Fin 0)) (Vector3 (Fin 0) (Fin (- 5)) (Fin 0)))
     (make_key 3) \<and>
   v_y (position (marbles (checkKeyCollisions 0 0 (physics_with no_jitter
      [marble_at (Vector3 (Fin 0) (Fin 0.4) (Fin 0)) (Vector3 (Fin 0) (Fin (- 5)) (Fin 0))])) ! 0))
     = Fin 0.45 \<and>
   v_y (velocity (marbles (checkKeyCollisions 0 0 (physics_with no_jitter
      [marble_at (Vector3 (Fin 0) (Fin 0.4) (Fin 0)) (Vector3 (Fin 0) (Fin (- 5)) (Fin 0))])) ! 0))
     = Fin 3.5 \<and>
   bounceCount (marbles (checkKeyCollisions 0 0 (physics_with no_jitter
      [marble_at (Vector3 (Fin 0) (Fin 0.4) (Fin 0)) (Vector3 (Fin 0) (Fin (- 5)) (Fin 0))])) ! 0)
     = 1"
proof -
  let ?m = "marble_at (Vector3 (Fin 0) (Fin 0.4) (Fin 0)) (Vector3 (Fin 0) (Fin (- 5)) (Fin 0))"
  let ?s = "physics_with no_jitter [?m]"
  have px: "v_x (position ?m) = Fin 0" by (simp add: marble_at_def Vector3_def)
  have i: "0 < length (marbles ?s)" by simp
  have k: "3 < length (keys ?s)" by simp
  have hit: "key_collision_test (marbles ?s ! 0) (keys ?s ! 3)"
    by (simp add: key_collision_test_def marble_at_def make_key_def Vector3_def jge_def jsub_def)
  have others: "\<forall>j < length (keys ?s). j \<noteq> 3 \<longrightarrow> \<not> x_in_key (marbles ?s ! 0) (keys ?s ! j)"
  proof (intro allI impI)
    fix j assume j: "j < length (keys ?s)" "j \<noteq> 3"
    have "x_in_key ?m (make_key 3)" by (subst x_in_make_key [OF px]) simp
    with make_key_x_unique [OF px, of j 3] j show "\<not> x_in_key (marbles ?s ! 0) (keys ?s ! j)"
      by auto
  qed
  from collision_response [OF i k hit others, of 0] i k hit show ?thesis
    by (simp add: marble_at_def make_key_def Vector3_def)
qed

subsection \<open>The collision test\<close>

text \<open>
  C3, as stated, fails: a marble of radius 0.3 centred at \<open>x = 0.9\<close> reaches over the
  edge (at 0.75) of the key at the origin, so its extent overlaps the key's footprint,
  but the test of the code fails because the centre is outside the key's width.
\<close>

theorem extent_overlap_without_collision:
  "extent_overlaps_key
     (marble_at (Vector3 (Fin 0.9) (Fin 0.2) (Fin 0)) (Vector3 (Fin 0) (Fin (- 1)) (Fin 0)))
     (make_key 3) \<and>
   \<not> key_collision_test
     (marble_at (Vector3 (Fin 0.9) (Fin 0.2) (Fin 0)) (Vector3 (Fin 0) (Fin (- 1)) (Fin 0)))
     (make_key 3)"
  by (simp add: extent_overlaps_key_def key_collision_test_def marble_at_def make_key_def
      Vector3_def jge_def jsub_def)

text \<open>
  C3, amended. On finite coordinates the collision test succeeds exactly when the marble's
  centre X lies within the key's width, \<open>[key.x - width/2, key.x + width/2]\<close>, and the
  marble's extent on Y, centre plus and minus radius, overlaps the key's height; the Z
  coordinates and the key's depth play no part. In the step, the bounce is applied to
  exactly the keys that pass this test.
\<close>

theorem collision_test_centre_x:
  "key_collision_test
     \<lparr>position = \<lparr>v_x = Fin x, v_y = Fin y, v_z = z\<rparr>, velocity = v, acceleration = a,
      radius = Fin r, mass = ms, bounceCount = n, isActive = b\<rparr>
     \<lparr>k_position = \<lparr>v_x = Fin kx, v_y = Fin ky, v_z = kz\<rparr>, width = Fin w, height = Fin h,
      depth = d, key_note = nt, frequency = f, color = c, isHit = hit, hitTime = t\<rparr>
   = (kx - w / 2 \<le> x \<and> x \<le> kx + w / 2 \<and> y - r \<le> ky + h / 2 \<and> ky - h / 2 \<le> y + r) \<and>
   checkKeyCollisions i now (s\<lparr>keys := [key]\<rparr>) =
     (if key_collision_test (marbles s ! i) key
      then handleKeyCollision i 0 now (s\<lparr>keys := [key]\<rparr>) else s\<lparr>keys := [key]\<rparr>)"
  by (auto simp add: key_collision_test_def jge_def jsub_def checkKeyCollisions_def)

subsection \<open>Short frequency data\<close>

lemma getFrequencyLevel_short:
  assumes "length fd < 10"
  shows "getFrequencyLevel fd 0 10 = NaN"
proof -
  have "real (length fd) / 10 < 1" using assms by simp
  then have "\<lfloor>real (length fd) / 10\<rfloor> = 0" by (simp add: floor_eq_iff)
  then show ?thesis
    by (simp add: getFrequencyLevel_def Let_def signed_inf_def)
qed

lemma getFrequencyLevel_empty: "getFrequencyLevel [] p q = NaN"
  by (simp add: getFrequencyLevel_def Let_def signed_inf_def)

lemma jadd_NaN_right [simp]: "jadd a NaN = NaN"
  by (cases a) simp_all

lemma jmul_NaN_right [simp]: "jmul a NaN = NaN"
  by (cases a) simp_all

lemma applyAudioInfluence_vx:
  "i < length (marbles s) \<Longrightarrow>
   v_x (velocity (marbles (applyAudioInfluence i ad s) ! i)) =
     jadd (v_x (velocity (marbles s ! i)))
       (jmul (jmul (jsub (Fin (rand_seq s (rand_ix s))) (Fin 0.5))
          (getFrequencyLevel (pa_frequencyData ad) 0 10)) (Fin 0.1))"
  by (simp add: applyAudioInfluence_def Let_def Math_random_def)

lemma integrate_marble_vx:
  "i < length (marbles s) \<Longrightarrow>
   v_x (velocity (marbles (integrate_marble dt (Some ad) i s) ! i)) =
     jmul (jadd (v_x (velocity (marbles (applyAudioInfluence i ad
              (s\<lparr>marbles := (marbles s)[i := (marbles s ! i)\<lparr>acceleration := gravity\<rparr>]\<rparr>)) ! i)))
            (jmul (v_x (acceleration (marbles (applyAudioInfluence i ad
              (s\<lparr>marbles := (marbles s)[i := (marbles s ! i)\<lparr>acceleration := gravity\<rparr>]\<rparr>)) ! i))) dt))
       friction"
  by (simp add: integrate_marble_def Let_def applyAudioInfluence_def Math_random_def
      vec_add_def multiplyScalar_def)

lemma applyAudioInfluence_vz:
  "i < length (marbles s) \<Longrightarrow>
   v_z (velocity (marbles (applyAudioInfluence i ad s) ! i)) =
     jadd (v_z (velocity (marbles s ! i)))
       (jmul (jmul (jsub (Fin (rand_seq s (Suc (rand_ix s)))) (Fin 0.5))
          (getFrequencyLevel (pa_frequencyData ad) 50 100)) (Fin 0.05))"
  by (simp add: applyAudioInfluence_def Let_def Math_random_def)

text \<open>
  C10. When the frequency array given to the step has fewer than 10 elements, the bass
  level is \<open>0 / 0\<close>, that is NaN, which is not a non-negative number; the audio influence
  adds it into the marble's \<open>velocity.x\<close>, which is NaN after it and after the
  integration. With the empty array all three levels are NaN and \<open>velocity.z\<close> is NaN
  as well. The feature vector that the analyzer returns after a failed initialization
  carries the empty array.
\<close>

theorem short_frequency_data_gives_nan:
  assumes "length fd < 10" and "i < length (marbles s)"
  shows "getFrequencyLevel fd 0 10 = NaN \<and>
         \<not> jle (Fin 0) (getFrequencyLevel fd 0 10) \<and>
         v_x (velocity (marbles (applyAudioInfluence i
                \<lparr>pa_frequencyData = fd, pa_volume = vol\<rparr> s) ! i)) = NaN \<and>
         v_x (velocity (marbles (integrate_marble dt
                (Some \<lparr>pa_frequencyData = fd, pa_volume = vol\<rparr>) i s) ! i)) = NaN \<and>
         getFrequencyLevel [] 10 50 = NaN \<and> getFrequencyLevel [] 50 100 = NaN \<and>
         v_z (velocity (marbles (applyAudioInfluence i
                \<lparr>pa_frequencyData = [], pa_volume = vol\<rparr> s) ! i)) = NaN \<and>
         frequencyData (getAudioData (AudioAnalyzer_new False)) = []"
proof -
  have lv: "getFrequencyLevel fd 0 10 = NaN"
    using assms(1) by (rule getFrequencyLevel_short)
  have a: "v_x (velocity (marbles (applyAudioInfluence i
                \<lparr>pa_frequencyData = fd, pa_volume = vol\<rparr> s) ! i)) = NaN"
    using assms(2) by (simp add: applyAudioInfluence_vx lv)
  have b: "v_x (velocity (marbles (integrate_marble dt
                (Some \<lparr>pa_frequencyData = fd, pa_volume = vol\<rparr>) i s) ! i)) = NaN"
    using assms(2) by (simp add: integrate_marble_vx applyAudioInfluence_vx lv)
  have z: "v_z (velocity (marbles (applyAudioInfluence i
                \<lparr>pa_frequencyData = [], pa_volume = vol\<rparr> s) ! i)) = NaN"
    using assms(2) by (simp add: applyAudioInfluence_vz getFrequencyLevel_empty)
  have c: "frequencyData (getAudioData (AudioAnalyzer_new False)) = []"
    by (simp add: getAudioData_def AudioAnalyzer_new_def initAudioContext_def)
  from lv a b z c show ?thesis by (simp add: getFrequencyLevel_empty)
qed

theorem short_frequency_data_gives_nan_witness:
  "length ([] :: jsnum list) < 10 \<and>
   (0::nat) < length (marbles (physics_with no_jitter
      [marble_at (Vector3 (Fin 0) (Fin 10) (Fin 0)) (Vector3 (Fin 0) (Fin 0) (Fin 0))])) \<and>
   getFrequencyLevel [] 0 10 = NaN \<and>
   v_x (velocity (marbles (integrate_marble (Fin 0.1)
          (Some \<lparr>pa_frequencyData = [], pa_volume = Fin 0\<rparr>) 0
          (physics_with no_jitter
             [marble_at (Vector3 (Fin 0) (Fin 10) (Fin 0)) (Vector3 (Fin 0) (Fin 0) (Fin 0))])) ! 0))
     = NaN"
proof -
  let ?s = "physics_with no_jitter
      [marble_at (Vector3 (Fin 0) (Fin 10) (Fin 0)) (Vector3 (Fin 0) (Fin 0) (Fin 0))]"
  have l: "length ([] :: jsnum list) < 10" by simp
  have i: "0 < length (marbles ?s)" by simp
  from short_frequency_data_gives_nan [OF l i, of "Fin 0" "Fin 0.1"] l i show ?thesis
    by simp
qed

subsection \<open>The loop over the marbles\<close>

lemma fold_no_collision:
  "\<forall>j \<in> set js. \<not> key_collision_test (marbles s ! i) (keys s ! j) \<Longrightarrow>
   foldl (\<lambda>s k. if key_collision_test (marbles s ! i) (keys s ! k)
                 then handleKeyCollision i k now s else s) s js = s"
  by (induction js) auto

lemma checkKeyCollisions_none:
  "\<forall>j < length (keys s). \<not> key_collision_test (marbles s ! i) (keys s ! j) \<Longrightarrow>
   checkKeyCollisions i now s = s"
  unfolding checkKeyCollisions_def by (rule fold_no_collision) simp

lemma integrate_marble_keys [simp]: "keys (integrate_marble dt a i s) = keys s"
  by (cases a) (simp_all add: integrate_marble_def Let_def applyAudioInfluence_def Math_random_def)

lemma integrate_marble_synthNotes [simp]: "synthNotes (integrate_marble dt a i s) = synthNotes s"
  by (cases a) (simp_all add: integrate_marble_def Let_def applyAudioInfluence_def Math_random_def)

lemma integrate_marble_marbles:
  "i < length (marbles s) \<Longrightarrow>
   marbles (integrate_marble dt a i s) = (marbles s)[i := marbles (integrate_marble dt a i s) ! i]"
  by (cases a) (simp_all add: integrate_marble_def Let_def applyAudioInfluence_def Math_random_def)

lemma integrate_marble_kind:
  "i < length (marbles s) \<Longrightarrow>
   isActive (marbles (integrate_marble dt a i s) ! i) = isActive (marbles s ! i) \<and>
   radius (marbles (integrate_marble dt a i s) ! i) = radius (marbles s ! i)"
  by (cases a) (simp_all add: integrate_marble_def Let_def applyAudioInfluence_def Math_random_def)

lemma map_update_same: "f y = f (xs ! k) \<Longrightarrow> map f (xs[k := y]) = map f xs"
  by (induction xs arbitrary: k) (auto split: nat.splits)

lemma handleKeyCollision_key_boxes [simp]:
  "map key_box (keys (handleKeyCollision i k now s)) = map key_box (keys s)"
  by (simp add: handleKeyCollision_keys key_box_def map_update_same)

lemma fold_collisions_shape:
  "i < length (marbles s) \<Longrightarrow>
   (let s' = foldl (\<lambda>s k. if key_collision_test (marbles s ! i) (keys s ! k)
                          then handleKeyCollision i k now s else s) s js
    in marbles s' = (marbles s)[i := marbles s' ! i] \<and>
       isActive (marbles s' ! i) = isActive (marbles s ! i) \<and>
       radius (marbles s' ! i) = radius (marbles s ! i) \<and>
       map key_box (keys s') = map key_box (keys s))"
proof (induction js arbitrary: s)
  case Nil
  then show ?case by simp
next
  case (Cons k js)
  show ?case
  proof (cases "key_collision_test (marbles s ! i) (keys s ! k)")
    case False
    with Cons show ?thesis by simp
  next
    case True
    let ?h = "handleKeyCollision i k now s"
    have len: "i < length (marbles ?h)"
      using Cons.prems by (simp add: handleKeyCollision_marbles)
    from Cons.IH [OF len] Cons.prems True show ?thesis
      by (simp add: Let_def handleKeyCollision_marbles)
  qed
qed

lemma checkKeyCollisions_shape:
  assumes "i < length (marbles s)"
  shows "marbles (checkKeyCollisions i now s) = (marbles s)[i := marbles (checkKeyCollisions i now s) ! i]"
    and "isActive (marbles (checkKeyCollisions i now s) ! i) = isActive (marbles s ! i)"
    and "radius (marbles (checkKeyCollisions i now s) ! i) = radius (marbles s ! i)"
    and "map key_box (keys (checkKeyCollisions i now s)) = map key_box (keys s)"
  using fold_collisions_shape [OF assms, of now "[0..<length (keys s)]"]
  by (simp_all add: checkKeyCollisions_def Let_def)


lemma splice1_update [simp]: "splice1 i (xs[i := y]) = splice1 i xs"
  by (simp add: splice1_def)

lemma length_splice1: "i < length xs \<Longrightarrow> length (splice1 i xs) = length xs - 1"
  by (simp add: splice1_def)

lemma set_splice1: "set (splice1 i xs) \<subseteq> set xs"
  by (auto simp: splice1_def dest: in_set_takeD in_set_dropD)

lemma nth_splice1: "j < length xs - 1 \<Longrightarrow> i \<le> j \<Longrightarrow> splice1 i xs ! j = xs ! Suc j"
  by (auto simp add: splice1_def nth_append min_def)

lemma nth_splice1_low: "j < i \<Longrightarrow> i < length xs \<Longrightarrow> splice1 i xs ! j = xs ! j"
  by (simp add: splice1_def nth_append)

lemma integrate_length [simp]: "length (marbles (integrate_marble dt a i s)) = length (marbles s)"
  by (cases a) (simp_all add: integrate_marble_def Let_def applyAudioInfluence_def Math_random_def)

lemma update_marble_marbles:
  assumes i: "i < length (marbles s)" and act: "isActive (marbles s ! i)"
  shows "marbles (update_marble dt a now i s) =
     (if jlt (v_y (position (marbles (checkKeyCollisions i now (integrate_marble dt a i s)) ! i)))
             (Fin (- 10))
      then splice1 i (marbles s)
      else (marbles s)[i := marbles (checkKeyCollisions i now (integrate_marble dt a i s)) ! i])"
proof -
  let ?s1 = "integrate_marble dt a i s"
  let ?s2 = "checkKeyCollisions i now ?s1"
  have i1: "i < length (marbles ?s1)" using i by simp
  have m2: "marbles ?s2 = (marbles s)[i := marbles ?s2 ! i]"
    using checkKeyCollisions_shape(1) [OF i1, of now] integrate_marble_marbles [OF i, of dt a]
    by (metis list_update_overwrite)
  show ?thesis
    using act
    by (simp add: update_marble_def removeIfFallen_def Let_def) (metis m2 splice1_update)
qed

lemma update_marble_keys:
  assumes "i < length (marbles s)"
  shows "map key_box (keys (update_marble dt a now i s)) = map key_box (keys s)"
proof -
  have "i < length (marbles (integrate_marble dt a i s))" using assms by simp
  from checkKeyCollisions_shape(4) [OF this, of now] show ?thesis
    by (simp add: update_marble_def)
qed

lemma moved_marble_kind:
  assumes i: "i < length (marbles s)"
  shows "isActive (marbles (checkKeyCollisions i now (integrate_marble dt a i s)) ! i)
           = isActive (marbles s ! i)"
    and "radius (marbles (checkKeyCollisions i now (integrate_marble dt a i s)) ! i)
           = radius (marbles s ! i)"
proof -
  have i1: "i < length (marbles (integrate_marble dt a i s))" using i by simp
  show "isActive (marbles (checkKeyCollisions i now (integrate_marble dt a i s)) ! i)
           = isActive (marbles s ! i)"
    using checkKeyCollisions_shape(2) [OF i1, of now] integrate_marble_kind [OF i, of dt a]
    by simp
  show "radius (marbles (checkKeyCollisions i now (integrate_marble dt a i s)) ! i)
           = radius (marbles s ! i)"
    using checkKeyCollisions_shape(3) [OF i1, of now] integrate_marble_kind [OF i, of dt a]
    by simp
qed


lemma update_marble_length:
  assumes "i < length (marbles s)"
  shows "length (marbles (update_marble dt a now i s)) \<le> length (marbles s) \<and>
         length (marbles s) - 1 \<le> length (marbles (update_marble dt a now i s))"
proof (cases "isActive (marbles s ! i)")
  case True
  with assms show ?thesis by (simp add: update_marble_marbles length_splice1)
next
  case False
  then show ?thesis by (simp add: update_marble_def)
qed

lemma update_loop:
  assumes "n \<le> length (marbles s)"
    and "list_all (\<lambda>m. isActive m \<and> radius m = r) (marbles s)"
    and "\<forall>j. n \<le> j \<and> j < length (marbles s) \<longrightarrow>
           \<not> jlt (v_y (position (marbles s ! j))) (Fin (- 10))"
  shows "list_all (\<lambda>m. isActive m \<and> radius m = r \<and> \<not> jlt (v_y (position m)) (Fin (- 10)))
           (marbles (foldl (\<lambda>s i. update_marble dt a now i s) s (rev [0..<n]))) \<and>
         length (marbles (foldl (\<lambda>s i. update_marble dt a now i s) s (rev [0..<n])))
           \<le> length (marbles s) \<and>
         map key_box (keys (foldl (\<lambda>s i. update_marble dt a now i s) s (rev [0..<n])))
           = map key_box (keys s)"
  using assms
proof (induction n arbitrary: s)
  case 0
  then show ?case by (simp add: list_all_length)
next
  case (Suc n)
  let ?s' = "update_marble dt a now n s"
  let ?m' = "marbles (checkKeyCollisions n now (integrate_marble dt a n s)) ! n"
  have n: "n < length (marbles s)" using Suc.prems(1) by simp
  have act: "isActive (marbles s ! n)" "radius (marbles s ! n) = r"
    using Suc.prems(2) n by (simp_all add: list_all_length)
  have kind: "isActive ?m'" "radius ?m' = r"
    using moved_marble_kind [OF n, of now dt a] act by simp_all
  have ms: "marbles ?s' =
     (if jlt (v_y (position ?m')) (Fin (- 10)) then splice1 n (marbles s)
      else (marbles s)[n := ?m'])"
    using n act(1) by (rule update_marble_marbles)
  have len: "length (marbles ?s') \<le> length (marbles s)" "n \<le> length (marbles ?s')"
    using update_marble_length [OF n, of dt a now] n by linarith+
  have all: "list_all (\<lambda>m. isActive m \<and> radius m = r) (marbles ?s')"
  proof (cases "jlt (v_y (position ?m')) (Fin (- 10))")
    case True
    with ms Suc.prems(2) set_splice1 [of n "marbles s"] show ?thesis
      by (auto simp: list_all_iff)
  next
    case False
    with ms Suc.prems(2) kind show ?thesis
      by (auto simp: list_all_iff dest!: set_update_subset_insert [THEN subsetD])
  qed
  have above: "\<forall>j. n \<le> j \<and> j < length (marbles ?s') \<longrightarrow>
                 \<not> jlt (v_y (position (marbles ?s' ! j))) (Fin (- 10))"
  proof (intro allI impI)
    fix j assume j: "n \<le> j \<and> j < length (marbles ?s')"
    show "\<not> jlt (v_y (position (marbles ?s' ! j))) (Fin (- 10))"
    proof (cases "jlt (v_y (position ?m')) (Fin (- 10))")
      case True
      with ms have eq: "marbles ?s' = splice1 n (marbles s)" by simp
      with j n have "j < length (marbles s) - 1" by (simp add: length_splice1)
      with j eq have "marbles ?s' ! j = marbles s ! Suc j" "Suc j < length (marbles s)"
        by (simp_all add: nth_splice1)
      with Suc.prems(3) j show ?thesis by simp
    next
      case False
      with ms have eq: "marbles ?s' = (marbles s)[n := ?m']" by simp
      show ?thesis
      proof (cases "j = n")
        case True
        with eq n False show ?thesis by simp
      next
        case False
        with eq j Suc.prems(3) show ?thesis by simp
      qed
    qed
  qed
  have keys': "map key_box (keys ?s') = map key_box (keys s)"
    using n by (rule update_marble_keys)
  from Suc.IH [OF len(2) all above] len(1) keys' show ?case
    by simp
qed

lemma updateKeyAnimation_key_boxes [simp]:
  "map key_box (keys (updateKeyAnimation now i s)) = map key_box (keys s)"
  by (simp add: updateKeyAnimation_def Let_def key_box_def map_update_same)

lemma fold_key_animation_boxes:
  "map key_box (keys (foldl (\<lambda>s i. updateKeyAnimation now i s) s js)) = map key_box (keys s)"
  by (induction js arbitrary: s) simp_all

lemma updateKeyAnimations_key_boxes [simp]:
  "map key_box (keys (updateKeyAnimations now s)) = map key_box (keys s)"
  by (simp add: updateKeyAnimations_def fold_key_animation_boxes)

lemma update_post:
  assumes "list_all (\<lambda>m. isActive m \<and> radius m = r) (marbles s)"
  shows "list_all (\<lambda>m. isActive m \<and> radius m = r \<and> \<not> jlt (v_y (position m)) (Fin (- 10)))
           (marbles (update dt a now s)) \<and>
         length (marbles (update dt a now s)) \<le> length (marbles s) \<and>
         map key_box (keys (update dt a now s)) = map key_box (keys s)"
proof -
  have "\<forall>j. length (marbles s) \<le> j \<and> j < length (marbles s) \<longrightarrow>
           \<not> jlt (v_y (position (marbles s ! j))) (Fin (- 10))"
    by auto
  from update_loop [OF order_refl assms this, of dt a now] show ?thesis
    by (simp add: update_def)
qed

lemma standard_key_below:
  assumes "map key_box (keys s) = map key_box (map make_key [0..<7])"
    and "radius m = Fin 0.3"
    and "jlt (v_y (position m)) (Fin (- 10))"
    and "j < length (keys s)"
  shows "\<not> key_collision_test m (keys s ! j)"
proof -
  have len: "length (keys s) = 7"
    using assms(1) by (metis length_map length_upt diff_zero)
  have "key_box (keys s ! j) = key_box (make_key j)"
    using assms(1,4) len by (metis nth_map length_map nth_upt add_0 length_upt diff_zero)
  then have box: "v_y (k_position (keys s ! j)) = Fin 0" "height (keys s ! j) = Fin 0.3"
    by (simp_all add: key_box_def make_key_def Vector3_def)
  obtain y where "v_y (position m) = Fin y \<and> y < - 10 \<or> v_y (position m) = NInf"
    using assms(3) by (cases "v_y (position m)") auto
  then show ?thesis
    using assms(2) box
    by (auto simp add: key_collision_test_def jge_def jsub_def)
qed


subsection \<open>Retirement\<close>

lemma fallen_marble_removed:
  assumes wf: "wf_physics s" and i: "i < length (marbles s)"
    and low: "jlt (v_y (position (marbles (integrate_marble dt a i s) ! i))) (Fin (- 10))"
  shows "marbles (update_marble dt a now i s) = splice1 i (marbles s)"
proof -
  let ?s1 = "integrate_marble dt a i s"
  have act: "isActive (marbles s ! i)" "radius (marbles s ! i) = Fin 0.3"
    using wf i by (simp_all add: wf_physics_def list_all_length)
  have r1: "radius (marbles ?s1 ! i) = Fin 0.3"
    using integrate_marble_kind [OF i, of dt a] act by simp
  have boxes: "map key_box (keys ?s1) = map key_box (map make_key [0..<7])"
    using wf by (simp add: wf_physics_def)
  have "\<forall>j < length (keys ?s1). \<not> key_collision_test (marbles ?s1 ! i) (keys ?s1 ! j)"
    using standard_key_below [OF boxes r1 low] by blast
  then have "checkKeyCollisions i now ?s1 = ?s1"
    by (rule checkKeyCollisions_none)
  with update_marble_marbles [OF i act(1), of dt a now] low show ?thesis
    by simp
qed

lemma wf_physics_with:
  "list_all (\<lambda>m. isActive m \<and> radius m = Fin 0.3) ms \<Longrightarrow> wf_physics (physics_with rs ms)"
  by (simp add: wf_physics_def)


subsection \<open>Falling under gravity alone\<close>

lemma collision_test_key_box:
  "key_box k = key_box k' \<Longrightarrow> key_collision_test m k = key_collision_test m k'"
  by (simp add: key_box_def key_collision_test_def)

lemma no_collision_key_boxes:
  "map key_box ks = map key_box ks' \<Longrightarrow>
   list_all (\<lambda>key. \<not> key_collision_test m key) ks =
   list_all (\<lambda>key. \<not> key_collision_test m key) ks'"
proof (induction ks arbitrary: ks')
  case Nil
  then show ?case by simp
next
  case (Cons k ks)
  then obtain k' ks'' where "ks' = k' # ks''" by (cases ks') auto
  with Cons show ?case by (auto dest: collision_test_key_box)
qed








lemma integrated_marble:
  "marbles s = [m] \<Longrightarrow>
   marbles (integrate_marble dt None 0 s) ! 0 =
     m\<lparr>acceleration := gravity,
       velocity := multiplyScalar (vec_add (velocity m) (multiplyScalar gravity dt)) friction,
       position := vec_add (position m)
          (multiplyScalar (multiplyScalar (vec_add (velocity m) (multiplyScalar gravity dt))
             friction) dt)\<rparr>"
  by (simp add: integrate_marble_free)


lemma seven_keys: "map make_key [0..<7] = [make_key 0, make_key 1, make_key 2, make_key 3,
    make_key 4, make_key 5, make_key 6]"
  by (simp add: upt_rec eval_nat_numeral)

lemma misses_keys_at_one:
  "v_x (position m) = Fin 1 \<Longrightarrow> list_all (\<lambda>key. \<not> key_collision_test m key) (map make_key [0..<7])"
  by (simp add: seven_keys key_collision_test_def make_key_def Vector3_def jge_def jsub_def)








subsection \<open>The step keeps exactly the marbles that have not fallen\<close>

lemma rand_fields [simp]:
  "rand_seq (updateMarbleMesh dt i s) = rand_seq s" "rand_ix (updateMarbleMesh dt i s) = rand_ix s"
  "rand_seq (addToTrail i s) = rand_seq s" "rand_ix (addToTrail i s) = rand_ix s"
  "rand_seq (removeIfFallen i s) = rand_seq s" "rand_ix (removeIfFallen i s) = rand_ix s"
  by (simp_all add: updateMarbleMesh_def addToTrail_def removeIfFallen_def Let_def)

lemma handleKeyCollision_rand:
  "rand_seq (handleKeyCollision i k now s) = rand_seq s"
  "rand_ix (handleKeyCollision i k now s) = rand_ix s + 61"
  by (simp_all add: handleKeyCollision_def Let_def Math_random_def createHitEffect_eq playNote_def)

lemma same_view_integrate:
  "same_view i s t \<Longrightarrow> same_view i (integrate_marble dt a i s) (integrate_marble dt a i t)"
  by (cases a)
     (simp_all add: same_view_def integrate_marble_def Let_def applyAudioInfluence_def
        Math_random_def)

lemma same_view_handle:
  "same_view i s t \<Longrightarrow>
   same_view i (handleKeyCollision i k now s) (handleKeyCollision i k now t)"
  by (simp add: same_view_def handleKeyCollision_marbles handleKeyCollision_keys
      handleKeyCollision_rand)

lemma same_view_fold:
  "same_view i s t \<Longrightarrow>
   same_view i
     (foldl (\<lambda>s k. if key_collision_test (marbles s ! i) (keys s ! k)
                    then handleKeyCollision i k now s else s) s js)
     (foldl (\<lambda>s k. if key_collision_test (marbles s ! i) (keys s ! k)
                    then handleKeyCollision i k now s else s) t js)"
proof (induction js arbitrary: s t)
  case Nil
  then show ?case by simp
next
  case (Cons k js)
  have eq: "key_collision_test (marbles s ! i) (keys s ! k)
          = key_collision_test (marbles t ! i) (keys t ! k)"
    using Cons.prems by (simp add: same_view_def)
  show ?case
  proof (cases "key_collision_test (marbles s ! i) (keys s ! k)")
    case True
    with eq Cons.IH [OF same_view_handle [OF Cons.prems, of k now]] show ?thesis by simp
  next
    case False
    with eq Cons.IH [OF Cons.prems] show ?thesis by simp
  qed
qed

lemma same_view_check:
  assumes "same_view i s t"
  shows "same_view i (checkKeyCollisions i now s) (checkKeyCollisions i now t)"
proof -
  have "keys s = keys t" using assms by (simp add: same_view_def)
  with same_view_fold [OF assms, of now "[0..<length (keys s)]"] show ?thesis
    by (simp add: checkKeyCollisions_def)
qed

lemma same_view_moved:
  assumes "same_view i s t"
  shows "same_view i (checkKeyCollisions i now (integrate_marble dt a i s))
                     (checkKeyCollisions i now (integrate_marble dt a i t))"
  using assms by (intro same_view_check same_view_integrate)


lemma visit_marbles:
  assumes i: "i < length (marbles s)"
  shows "marbles (checkKeyCollisions i now (integrate_marble dt a i s)) =
     (marbles s)[i := marbles (checkKeyCollisions i now (integrate_marble dt a i s)) ! i]"
proof -
  have i1: "i < length (marbles (integrate_marble dt a i s))" using i by simp
  show ?thesis
    using checkKeyCollisions_shape(1) [OF i1, of now] integrate_marble_marbles [OF i, of dt a]
    by (metis list_update_overwrite)
qed

lemma move_marble_marbles:
  assumes "i < length (marbles s)" and "isActive (marbles s ! i)"
  shows "marbles (move_marble dt a now i s) =
     (marbles s)[i := marbles (checkKeyCollisions i now (integrate_marble dt a i s)) ! i]"
  using assms(2) visit_marbles [OF assms(1), of now dt a] by (simp add: move_marble_def)

lemma checkKeyCollisions_length [simp]:
  "length (keys (checkKeyCollisions i now s)) = length (keys s)"
proof -
  have "length (keys (foldl (\<lambda>s k. if key_collision_test (marbles s ! i) (keys s ! k)
                    then handleKeyCollision i k now s else s) s js)) = length (keys s)" for js
    by (induction js arbitrary: s) (simp_all add: handleKeyCollision_keys)
  then show ?thesis by (simp add: checkKeyCollisions_def)
qed

lemma round_fields:
  assumes "isActive (marbles s ! i)"
  shows "keys (update_marble dt a now i s) = keys (checkKeyCollisions i now (integrate_marble dt a i s))"
    and "rand_seq (update_marble dt a now i s)
           = rand_seq (checkKeyCollisions i now (integrate_marble dt a i s))"
    and "rand_ix (update_marble dt a now i s)
           = rand_ix (checkKeyCollisions i now (integrate_marble dt a i s))"
    and "keys (move_marble dt a now i s) = keys (checkKeyCollisions i now (integrate_marble dt a i s))"
    and "rand_seq (move_marble dt a now i s)
           = rand_seq (checkKeyCollisions i now (integrate_marble dt a i s))"
    and "rand_ix (move_marble dt a now i s)
           = rand_ix (checkKeyCollisions i now (integrate_marble dt a i s))"
  using assms by (simp_all add: update_marble_def move_marble_def)

lemma drop_splice1: "n \<le> length xs \<Longrightarrow> drop n (splice1 n xs) = drop (Suc n) xs"
  by (simp add: splice1_def)

lemma take_splice1: "take n (splice1 n xs) = take n xs"
  by (cases "n \<le> length xs") (simp_all add: splice1_def)

lemma loop_removes_fallen:
  assumes "n \<le> length (marbles t)"
    and "take n (marbles s) = take n (marbles t)"
    and "drop n (marbles s) =
           filter (\<lambda>m. \<not> jlt (v_y (position m)) (Fin (- 10))) (drop n (marbles t))"
    and "keys s = keys t" and "rand_seq s = rand_seq t" and "rand_ix s = rand_ix t"
    and "list_all isActive (take n (marbles t))"
  shows "marbles (foldl (\<lambda>s i. update_marble dt a now i s) s (rev [0..<n])) =
           filter (\<lambda>m. \<not> jlt (v_y (position m)) (Fin (- 10)))
             (marbles (foldl (\<lambda>s i. move_marble dt a now i s) t (rev [0..<n]))) \<and>
         length (marbles (foldl (\<lambda>s i. move_marble dt a now i s) t (rev [0..<n])))
           = length (marbles t)"
  using assms
proof (induction n arbitrary: s t)
  case 0
  then show ?case by simp
next
  case (Suc n)
  let ?K = "\<lambda>m. \<not> jlt (v_y (position m)) (Fin (- 10))"
  let ?s2 = "checkKeyCollisions n now (integrate_marble dt a n s)"
  let ?t2 = "checkKeyCollisions n now (integrate_marble dt a n t)"
  let ?s' = "update_marble dt a now n s" and ?t' = "move_marble dt a now n t"
  have nt: "n < length (marbles t)" using Suc.prems(1) by simp
  have "length (take (Suc n) (marbles s)) = Suc n"
    using Suc.prems(1,2) by simp
  then have ns: "n < length (marbles s)" by simp
  have same: "marbles s ! n = marbles t ! n"
    using Suc.prems(2) by (metis lessI nth_take)
  have tk: "take n (marbles s) = take n (marbles t)"
    using Suc.prems(2) by (metis le_add2 plus_1_eq_Suc take_take min.absorb1 le_SucI order_refl)
  have act_t: "isActive (marbles t ! n)" "list_all isActive (take n (marbles t))"
    using Suc.prems(7) nt by (simp_all add: list_all_length)
  have act_s: "isActive (marbles s ! n)" using act_t(1) same by simp
  have sv: "same_view n s t"
    using ns nt same Suc.prems(4,5,6) by (simp add: same_view_def)
  note sv2 = same_view_moved [OF sv, of now dt a]
  let ?m = "marbles ?t2 ! n"
  have m_eq: "marbles ?s2 ! n = ?m" using sv2 by (simp add: same_view_def)
  have ms': "marbles ?s' = (if ?K ?m then (marbles s)[n := ?m] else splice1 n (marbles s))"
    using update_marble_marbles [OF ns act_s, of dt a now] m_eq by simp
  have mt': "marbles ?t' = (marbles t)[n := ?m]"
    using nt act_t(1) by (rule move_marble_marbles)
  have p1: "n \<le> length (marbles ?t')" using nt mt' by simp
  have p2: "take n (marbles ?s') = take n (marbles ?t')"
    using ms' mt' tk by (simp add: take_splice1)
  have dt': "drop n (marbles ?t') = ?m # drop (Suc n) (marbles t)"
    using mt' nt by (metis Cons_nth_drop_Suc length_list_update nth_list_update_eq
        drop_update_cancel lessI)
  have ds: "drop (Suc n) (marbles s) = filter ?K (drop (Suc n) (marbles t))"
    using Suc.prems(3) .
  have p3: "drop n (marbles ?s') = filter ?K (drop n (marbles ?t'))"
  proof (cases "?K ?m")
    case True
    then have "marbles ?s' = (marbles s)[n := ?m]" using ms' by simp
    then have "drop n (marbles ?s') = ?m # drop (Suc n) (marbles s)"
      using ns by (metis Cons_nth_drop_Suc length_list_update nth_list_update_eq
          drop_update_cancel lessI)
    with True ds dt' show ?thesis by simp
  next
    case False
    then have "marbles ?s' = splice1 n (marbles s)" using ms' by simp
    then have "drop n (marbles ?s') = drop (Suc n) (marbles s)"
      using ns by (simp add: drop_splice1)
    with False ds dt' show ?thesis by simp
  qed
  have p4: "keys ?s' = keys ?t'" and p5: "rand_seq ?s' = rand_seq ?t'"
    and p6: "rand_ix ?s' = rand_ix ?t'"
    using sv2 round_fields [OF act_s, of dt a now] round_fields [OF act_t(1), of dt a now]
    by (simp_all add: same_view_def)
  have p7: "list_all isActive (take n (marbles ?t'))"
    using act_t(2) mt' by simp
  have len: "length (marbles ?t') = length (marbles t)" using mt' by simp
  from Suc.IH [OF p1 p2 p3 p4 p5 p6 p7] len show ?case by simp
qed

lemma update_is_filter:
  assumes "list_all isActive (marbles s)"
  shows "marbles (update dt a now s) =
           filter (\<lambda>m. \<not> jlt (v_y (position m)) (Fin (- 10))) (moved_marbles dt a now s)"
    and "length (moved_marbles dt a now s) = length (marbles s)"
  using loop_removes_fallen [of "length (marbles s)" s s dt a now] assms
  by (simp_all add: update_def moved_marbles_def)


lemma update_wf: "wf_physics s \<Longrightarrow> wf_physics (update dt a now s)"
proof -
  assume wf: "wf_physics s"
  then have "list_all (\<lambda>m. isActive m \<and> radius m = Fin 0.3) (marbles s)"
    by (simp add: wf_physics_def)
  from update_post [OF this, of dt a now] wf show ?thesis
    by (simp add: wf_physics_def list_all_iff)
qed

lemma standard_bounce_height:
  assumes "map key_box (keys s) = map key_box (map make_key [0..<7])"
    and "radius (marbles s ! i) = Fin 0.3" and "i < length (marbles s)"
    and "k < length (keys s)"
  shows "v_y (position (marbles (handleKeyCollision i k now s) ! i)) = Fin 0.45"
proof -
  have len: "length (keys s) = 7"
    using assms(1) by (metis length_map length_upt diff_zero)
  have "key_box (keys s ! k) = key_box (make_key k)"
    using assms(1,4) len by (metis nth_map length_map nth_upt add_0 length_upt diff_zero)
  then have box: "v_y (k_position (keys s ! k)) = Fin 0" "height (keys s ! k) = Fin 0.3"
    by (simp_all add: key_box_def make_key_def Vector3_def)
  show ?thesis
    using assms(2,3) box by (simp add: handleKeyCollision_marbles)
qed

lemma fold_collisions_height:
  assumes "map key_box (keys s) = map key_box (map make_key [0..<7])"
    and "radius (marbles s ! i) = Fin 0.3" and "i < length (marbles s)"
    and "\<forall>k \<in> set js. k < length (keys s)"
  shows "v_y (position (marbles (foldl (\<lambda>s k. if key_collision_test (marbles s ! i) (keys s ! k)
                    then handleKeyCollision i k now s else s) s js) ! i))
           = v_y (position (marbles s ! i)) \<or>
         v_y (position (marbles (foldl (\<lambda>s k. if key_collision_test (marbles s ! i) (keys s ! k)
                    then handleKeyCollision i k now s else s) s js) ! i)) = Fin 0.45"
  using assms
proof (induction js arbitrary: s)
  case Nil
  then show ?case by simp
next
  case (Cons k js)
  show ?case
  proof (cases "key_collision_test (marbles s ! i) (keys s ! k)")
    case False
    with Cons show ?thesis by simp
  next
    case True
    let ?h = "handleKeyCollision i k now s"
    have k: "k < length (keys s)" using Cons.prems(4) by simp
    have y: "v_y (position (marbles ?h ! i)) = Fin 0.45"
      using Cons.prems(1,2,3) k by (rule standard_bounce_height)
    have b: "map key_box (keys ?h) = map key_box (map make_key [0..<7])"
      using Cons.prems(1) by simp
    have r: "radius (marbles ?h ! i) = Fin 0.3"
      using Cons.prems(2,3) by (simp add: handleKeyCollision_marbles)
    have l: "i < length (marbles ?h)"
      using Cons.prems(3) by (simp add: handleKeyCollision_marbles)
    have ks: "\<forall>k \<in> set js. k < length (keys ?h)"
      using Cons.prems(4) by (simp add: handleKeyCollision_keys)
    from Cons.IH [OF b r l ks] y True show ?thesis by simp
  qed
qed

lemma floor_test_after_collisions:
  assumes wf: "wf_physics s" and i: "i < length (marbles s)"
  shows "jlt (v_y (position (marbles (checkKeyCollisions i now (integrate_marble dt a i s)) ! i)))
             (Fin (- 10))
       = jlt (v_y (position (marbles (integrate_marble dt a i s) ! i))) (Fin (- 10))"
proof -
  let ?s1 = "integrate_marble dt a i s"
  have r: "radius (marbles s ! i) = Fin 0.3"
    using wf i by (simp add: wf_physics_def list_all_length)
  have r1: "radius (marbles ?s1 ! i) = Fin 0.3"
    using integrate_marble_kind [OF i, of dt a] r by simp
  have boxes: "map key_box (keys ?s1) = map key_box (map make_key [0..<7])"
    using wf by (simp add: wf_physics_def)
  have i1: "i < length (marbles ?s1)" using i by simp
  have "v_y (position (marbles (checkKeyCollisions i now ?s1) ! i)) = v_y (position (marbles ?s1 ! i))
      \<or> v_y (position (marbles (checkKeyCollisions i now ?s1) ! i)) = Fin 0.45"
    unfolding checkKeyCollisions_def
    by (rule fold_collisions_height [OF boxes r1 i1]) simp
  moreover have "jlt (v_y (position (marbles ?s1 ! i))) (Fin (- 10)) \<Longrightarrow>
      checkKeyCollisions i now ?s1 = ?s1"
  proof -
    assume low: "jlt (v_y (position (marbles ?s1 ! i))) (Fin (- 10))"
    have "\<forall>j < length (keys ?s1). \<not> key_collision_test (marbles ?s1 ! i) (keys ?s1 ! j)"
      using standard_key_below [OF boxes r1 low] by blast
    then show ?thesis by (rule checkKeyCollisions_none)
  qed
  ultimately show ?thesis by auto
qed

text \<open>
  C7. In a well-formed state (the constructor's keys, active marbles of radius 0.3), for
  any time step, audio data and clock, the array after \<open>update\<close> is the array of the
  moved marbles with exactly those below \<open>-10\<close> left out: the marbles that stay are
  the moved ones, in their order, and the array is shorter by one for every moved marble
  that is below \<open>-10\<close>. So after \<open>update\<close> no marble of the array is below
  \<open>-10\<close>, \<open>update\<close> never lengthens the array (a removed marble does not come
  back), and the result is well-formed again. In the round of a marble the collision
  check does not change whether it is below \<open>-10\<close>, so the marbles removed are those
  below \<open>-10\<close> after their integration; such a marble is removed in its own round,
  which shortens the array by exactly one.
\<close>

theorem fallen_marbles_are_retired:
  assumes "wf_physics s"
  shows "list_all (\<lambda>m. \<not> jlt (v_y (position m)) (Fin (- 10))) (marbles (update dt a now s)) \<and>
         length (marbles (update dt a now s)) \<le> length (marbles s) \<and>
         wf_physics (update dt a now s) \<and>
         (\<forall>i < length (marbles s).
            jlt (v_y (position (marbles (integrate_marble dt a i s) ! i))) (Fin (- 10)) \<longrightarrow>
              marbles (update_marble dt a now i s) = splice1 i (marbles s) \<and>
              length (marbles (update_marble dt a now i s)) + 1 = length (marbles s)) \<and>
         marbles (update dt a now s) =
           filter (\<lambda>m. \<not> jlt (v_y (position m)) (Fin (- 10))) (moved_marbles dt a now s) \<and>
         length (moved_marbles dt a now s) = length (marbles s) \<and>
         length (marbles (update dt a now s)) +
           length (filter (\<lambda>m. jlt (v_y (position m)) (Fin (- 10))) (moved_marbles dt a now s))
           = length (marbles s) \<and>
         (\<forall>i < length (marbles s).
            jlt (v_y (position (marbles (checkKeyCollisions i now
                   (integrate_marble dt a i s)) ! i))) (Fin (- 10))
          = jlt (v_y (position (marbles (integrate_marble dt a i s) ! i))) (Fin (- 10)))"
proof -
  have all: "list_all (\<lambda>m. isActive m \<and> radius m = Fin 0.3) (marbles s)"
    using assms by (simp add: wf_physics_def)
  then have act: "list_all isActive (marbles s)" by (simp add: list_all_iff)
  note post = update_post [OF all, of dt a now]
  have a: "list_all (\<lambda>m. \<not> jlt (v_y (position m)) (Fin (- 10))) (marbles (update dt a now s))"
    using post by (simp add: list_all_iff)
  have b: "length (marbles (update dt a now s)) \<le> length (marbles s)"
    using post by simp
  have c: "wf_physics (update dt a now s)"
    using assms by (rule update_wf)
  have d: "\<forall>i < length (marbles s).
            jlt (v_y (position (marbles (integrate_marble dt a i s) ! i))) (Fin (- 10)) \<longrightarrow>
              marbles (update_marble dt a now i s) = splice1 i (marbles s) \<and>
              length (marbles (update_marble dt a now i s)) + 1 = length (marbles s)"
    using fallen_marble_removed [OF assms] by (auto simp add: length_splice1)
  note f = update_is_filter [OF act, of dt a now]
  have g: "length (marbles (update dt a now s)) +
           length (filter (\<lambda>m. jlt (v_y (position m)) (Fin (- 10))) (moved_marbles dt a now s))
           = length (marbles s)"
    unfolding f(1)
    using sum_length_filter_compl [of "\<lambda>m. \<not> jlt (v_y (position m)) (Fin (- 10))"
        "moved_marbles dt a now s"] f(2)
    by simp
  have h: "\<forall>i < length (marbles s).
            jlt (v_y (position (marbles (checkKeyCollisions i now
                   (integrate_marble dt a i s)) ! i))) (Fin (- 10))
          = jlt (v_y (position (marbles (integrate_marble dt a i s) ! i))) (Fin (- 10))"
    using floor_test_after_collisions [OF assms] by blast
  from a b c d f g h show ?thesis by blast
qed


lemma integrate_local:
  "i < length (marbles s) \<Longrightarrow> i < length (marbles t) \<Longrightarrow> marbles s ! i = marbles t ! i \<Longrightarrow>
   marbles (integrate_marble dt None i s) ! i = marbles (integrate_marble dt None i t) ! i"
  by (simp add: integrate_marble_free)

lemma move_marble_key_boxes:
  assumes "i < length (marbles s)"
  shows "map key_box (keys (move_marble dt a now i s)) = map key_box (keys s)"
proof -
  have "i < length (marbles (integrate_marble dt a i s))" using assms by simp
  from checkKeyCollisions_shape(4) [OF this, of now] show ?thesis
    by (simp add: move_marble_def)
qed

lemma keep_loop_free:
  assumes "n \<le> length (marbles t)" and "list_all isActive (marbles t)"
    and "i < length (marbles t)" and "map key_box (keys t) = map key_box ks"
    and "i < n \<longrightarrow> marbles (integrate_marble dt None i t) ! i = m \<and>
           list_all (\<lambda>key. \<not> key_collision_test m key) ks"
  shows "marbles (foldl (\<lambda>s j. move_marble dt None now j s) t (rev [0..<n])) ! i =
           (if i < n then m else marbles t ! i)"
  using assms
proof (induction n arbitrary: t)
  case 0
  then show ?case by simp
next
  case (Suc n)
  let ?t' = "move_marble dt None now n t"
  let ?m' = "marbles (checkKeyCollisions n now (integrate_marble dt None n t)) ! n"
  have n: "n < length (marbles t)" using Suc.prems(1) by simp
  have act: "isActive (marbles t ! n)"
    using Suc.prems(2) n by (simp add: list_all_length)
  have mt': "marbles ?t' = (marbles t)[n := ?m']"
    using n act by (rule move_marble_marbles)
  have act_m: "isActive ?m'"
    using moved_marble_kind(1) [OF n, of now dt None] act by simp
  have p1: "n \<le> length (marbles ?t')" using mt' n by simp
  have p2: "list_all isActive (marbles ?t')"
    using Suc.prems(2) act_m mt'
    by (auto simp: list_all_iff dest!: set_update_subset_insert [THEN subsetD])
  have p3: "i < length (marbles ?t')" using mt' Suc.prems(3) by simp
  have p4: "map key_box (keys ?t') = map key_box ks"
    using move_marble_key_boxes [OF n, of dt None now] Suc.prems(4) by simp
  show ?case
  proof (cases "i = n")
    case True
    with Suc.prems(5) have m: "marbles (integrate_marble dt None n t) ! n = m"
      and free: "list_all (\<lambda>key. \<not> key_collision_test m key) ks" by simp_all
    have "list_all (\<lambda>key. \<not> key_collision_test m key) (keys t)"
      using no_collision_key_boxes [OF Suc.prems(4), of m] free by simp
    then have "\<forall>j < length (keys (integrate_marble dt None n t)).
        \<not> key_collision_test (marbles (integrate_marble dt None n t) ! n)
             (keys (integrate_marble dt None n t) ! j)"
      using m by (simp add: list_all_length)
    then have "checkKeyCollisions n now (integrate_marble dt None n t) = integrate_marble dt None n t"
      by (rule checkKeyCollisions_none)
    with m have "?m' = m" by simp
    with mt' n True have at: "marbles ?t' ! i = m" by simp
    have p5: "i < n \<longrightarrow> marbles (integrate_marble dt None i ?t') ! i = m \<and>
           list_all (\<lambda>key. \<not> key_collision_test m key) ks"
      using True by simp
    from Suc.IH [OF p1 p2 p3 p4 p5] True at show ?thesis by simp
  next
    case False
    then have same: "marbles ?t' ! i = marbles t ! i" using mt' by simp
    have p5: "i < n \<longrightarrow> marbles (integrate_marble dt None i ?t') ! i = m \<and>
           list_all (\<lambda>key. \<not> key_collision_test m key) ks"
      using Suc.prems(5) False integrate_local [OF p3 Suc.prems(3) same, of dt] by auto
    from Suc.IH [OF p1 p2 p3 p4 p5] False same show ?thesis by auto
  qed
qed

lemma moved_free_marble:
  assumes "list_all isActive (marbles s)" and "i < length (marbles s)"
    and "no_collision_at dt i s"
  shows "moved_marbles dt None now s ! i = marbles (integrate_marble dt None i s) ! i"
  unfolding moved_marbles_def
  using keep_loop_free [OF order_refl assms(1,2) refl, of dt
      "marbles (integrate_marble dt None i s) ! i" now] assms(2,3)
  by (simp add: no_collision_at_def)






lemma misses_keys_at_three:
  "v_x (position m) = Fin 3 \<Longrightarrow> list_all (\<lambda>key. \<not> key_collision_test m key) (map make_key [0..<7])"
  by (simp add: seven_keys key_collision_test_def make_key_def Vector3_def jge_def jsub_def)

lemma no_collision_between_keys:
  assumes "wf_physics s" and "i < length (marbles s)"
    and "v_x (position (marbles s ! i)) = Fin 1 \<or> v_x (position (marbles s ! i)) = Fin 3"
    and "v_x (velocity (marbles s ! i)) = Fin 0"
  shows "no_collision_at (Fin d) i s"
proof -
  let ?m = "marbles (integrate_marble (Fin d) None i s) ! i"
  have "v_x (position ?m) = v_x (position (marbles s ! i))"
    using assms(2,3,4)
    by (auto simp add: integrate_marble_free vec_add_def multiplyScalar_def gravity_def
        friction_def Vector3_def)
  with assms(3) have miss: "list_all (\<lambda>key. \<not> key_collision_test ?m key) (map make_key [0..<7])"
    using misses_keys_at_one [of ?m] misses_keys_at_three [of ?m] by auto
  have boxes: "map key_box (keys s) = map key_box (map make_key [0..<7])"
    using assms(1) by (simp add: wf_physics_def)
  show ?thesis
    unfolding no_collision_at_def no_collision_key_boxes [OF boxes] using miss .
qed

lemma moved_pair:
  assumes wf: "wf_physics s" and ms: "marbles s = [a, b]"
    and "no_collision_at dt 0 s" and "no_collision_at dt 1 s"
  shows "moved_marbles dt None now s =
     [marbles (integrate_marble dt None 0 s) ! 0, marbles (integrate_marble dt None 1 s) ! 1]"
proof -
  have act: "list_all isActive (marbles s)"
    using wf by (simp add: wf_physics_def list_all_iff)
  have len: "length (moved_marbles dt None now s) = 2"
    using update_is_filter(2) [OF act, of dt None now] ms by simp
  have m0: "moved_marbles dt None now s ! 0 = marbles (integrate_marble dt None 0 s) ! 0"
    using moved_free_marble [OF act _ assms(3), of now] ms by simp
  have m1: "moved_marbles dt None now s ! 1 = marbles (integrate_marble dt None 1 s) ! 1"
    using moved_free_marble [OF act _ assms(4), of now] ms by simp
  show ?thesis
  proof (rule nth_equalityI)
    show "length (moved_marbles dt None now s) =
      length [marbles (integrate_marble dt None 0 s) ! 0, marbles (integrate_marble dt None 1 s) ! 1]"
      using len by simp
  next
    fix j assume "j < length (moved_marbles dt None now s)"
    then have "j = 0 \<or> j = 1" using len by auto
    then show "moved_marbles dt None now s ! j =
      [marbles (integrate_marble dt None 0 s) ! 0, marbles (integrate_marble dt None 1 s) ! 1] ! j"
      using m0 m1 by auto
  qed
qed

theorem fallen_marbles_are_retired_witness:
  "wf_physics (physics_with no_jitter
      [marble_at (Vector3 (Fin 1) (Fin 5) (Fin 0)) (Vector3 (Fin 0) (Fin 0) (Fin 0)),
       marble_at (Vector3 (Fin 3) (Fin (- 9.9)) (Fin 0)) (Vector3 (Fin 0) (Fin (- 5)) (Fin 0))]) \<and>
   marbles (update (Fin 0.1) None 0 (physics_with no_jitter
      [marble_at (Vector3 (Fin 1) (Fin 5) (Fin 0)) (Vector3 (Fin 0) (Fin 0) (Fin 0)),
       marble_at (Vector3 (Fin 3) (Fin (- 9.9)) (Fin 0)) (Vector3 (Fin 0) (Fin (- 5)) (Fin 0))])) =
     [(marble_at (Vector3 (Fin 1) (Fin 4.90396) (Fin 0)) (Vector3 (Fin 0) (Fin (- 0.9604)) (Fin 0)))
        \<lparr>acceleration := gravity\<rparr>]"
proof -
  let ?a = "marble_at (Vector3 (Fin 1) (Fin 5) (Fin 0)) (Vector3 (Fin 0) (Fin 0) (Fin 0))"
  let ?b = "marble_at (Vector3 (Fin 3) (Fin (- 9.9)) (Fin 0)) (Vector3 (Fin 0) (Fin (- 5)) (Fin 0))"
  let ?s = "physics_with no_jitter [?a, ?b]"
  have wf: "wf_physics ?s"
    by (rule wf_physics_with) (simp add: marble_at_def)
  have ms: "marbles ?s = [?a, ?b]" by simp
  have i0: "0 < length (marbles ?s)" and i1: "1 < length (marbles ?s)" by simp_all
  have f0: "no_collision_at (Fin 0.1) 0 ?s"
    by (rule no_collision_between_keys [OF wf i0]) (simp_all add: marble_at_def Vector3_def)
  have f1: "no_collision_at (Fin 0.1) 1 ?s"
    by (rule no_collision_between_keys [OF wf i1]) (simp_all add: marble_at_def Vector3_def)
  have a': "marbles (integrate_marble (Fin 0.1) None 0 ?s) ! 0 =
      (marble_at (Vector3 (Fin 1) (Fin 4.90396) (Fin 0)) (Vector3 (Fin 0) (Fin (- 0.9604)) (Fin 0)))
        \<lparr>acceleration := gravity\<rparr>"
    unfolding integrate_marble_free [OF i0] ms
    by (simp add: marble_at_def Vector3_def vec_add_def multiplyScalar_def gravity_def
        friction_def)
  have b': "jlt (v_y (position (marbles (integrate_marble (Fin 0.1) None 1 ?s) ! 1))) (Fin (- 10))"
    unfolding integrate_marble_free [OF i1] ms
    by (simp add: marble_at_def Vector3_def vec_add_def multiplyScalar_def gravity_def
        friction_def)
  have a_high: "\<not> jlt (v_y (position (marbles (integrate_marble (Fin 0.1) None 0 ?s) ! 0)))
                    (Fin (- 10))"
    unfolding a' by (simp add: marble_at_def Vector3_def)
  have "marbles (update (Fin 0.1) None 0 ?s) =
      filter (\<lambda>m. \<not> jlt (v_y (position m)) (Fin (- 10))) (moved_marbles (Fin 0.1) None 0 ?s)"
    using fallen_marbles_are_retired [OF wf, of "Fin 0.1" None 0] by blast
  also have "\<dots> = [marbles (integrate_marble (Fin 0.1) None 0 ?s) ! 0]"
    unfolding moved_pair [OF wf ms f0 f1] using a_high b' by simp
  finally show ?thesis using wf a' by simp
qed







subsection \<open>The note played at a strike\<close>

lemma update_single_synth:
  "marbles s = [m] \<Longrightarrow> isActive m \<Longrightarrow>
   synthNotes (update dt a now s) =
     synthNotes (checkKeyCollisions 0 now (integrate_marble dt a 0 s))"
  by (simp add: update_def update_marble_def)

lemma synthNotes_physics_with [simp]: "synthNotes (physics_with rs ms) = []"
  by (simp add: physics_with_def MarblePhysics_new_def setupXylophoneKeys_def note_names_def
      upt_rec)

lemma only_key_three:
  assumes "v_x (position m) = Fin 0" and "j < 7" and "j \<noteq> 3"
  shows "\<not> x_in_key m (make_key j)"
proof
  assume "x_in_key m (make_key j)"
  moreover have "x_in_key m (make_key 3)"
    by (subst x_in_make_key [OF assms(1)]) simp
  ultimately have "j = 3" by (rule make_key_x_unique [OF assms(1)])
  with assms(3) show False by simp
qed

lemma single_strike_note:
  "v_y (velocity (marbles (integrate_marble (Fin 0.1) None 0 (physics_with no_jitter
      [marble_at (Vector3 (Fin 0) (Fin 0.9) (Fin 0))
                 (Vector3 (Fin 0) (Fin (49 / 50 - 250 / 49)) (Fin 0))])) ! 0)) = Fin (- 5) \<and>
   key_collision_test (marbles (integrate_marble (Fin 0.1) None 0 (physics_with no_jitter
      [marble_at (Vector3 (Fin 0) (Fin 0.9) (Fin 0))
                 (Vector3 (Fin 0) (Fin (49 / 50 - 250 / 49)) (Fin 0))])) ! 0) (make_key 3) \<and>
   synthNotes (update (Fin 0.1) None 0 (physics_with no_jitter
      [marble_at (Vector3 (Fin 0) (Fin 0.9) (Fin 0))
                 (Vector3 (Fin 0) (Fin (49 / 50 - 250 / 49)) (Fin 0))]))
     = [(Fin 349.23, Fin 0.35)]"
proof -
  let ?m = "marble_at (Vector3 (Fin 0) (Fin 0.9) (Fin 0))
                      (Vector3 (Fin 0) (Fin (49 / 50 - 250 / 49)) (Fin 0))"
  let ?s = "physics_with no_jitter [?m]"
  let ?s1 = "integrate_marble (Fin 0.1) None 0 ?s"
  let ?m1 = "(marble_at (Vector3 (Fin 0) (Fin 0.4) (Fin 0)) (Vector3 (Fin 0) (Fin (- 5)) (Fin 0)))
               \<lparr>acceleration := gravity\<rparr>"
  have ms: "marbles ?s = [?m]" by simp
  have act: "isActive ?m" by (simp add: marble_at_def)
  have "marbles ?s1 ! 0 = ?m1"
    unfolding integrated_marble [OF ms]
    by (simp add: marble_at_def Vector3_def vec_add_def multiplyScalar_def gravity_def
        friction_def)
  moreover have "marbles ?s1 = (marbles ?s)[0 := marbles ?s1 ! 0]"
    by (rule integrate_marble_marbles) simp
  ultimately have m1: "marbles ?s1 = [?m1]" by simp
  have k1: "keys ?s1 = map make_key [0..<7]" by simp
  have i: "0 < length (marbles ?s1)" using m1 by simp
  have k: "3 < length (keys ?s1)" by simp
  have px: "v_x (position ?m1) = Fin 0" by (simp add: marble_at_def Vector3_def)
  have hit: "key_collision_test (marbles ?s1 ! 0) (keys ?s1 ! 3)"
    unfolding m1 k1
    by (simp add: key_collision_test_def marble_at_def make_key_def Vector3_def jge_def jsub_def)
  have others: "\<forall>j < length (keys ?s1). j \<noteq> 3 \<longrightarrow> \<not> x_in_key (marbles ?s1 ! 0) (keys ?s1 ! j)"
    unfolding m1 k1 using only_key_three [OF px] by simp
  have "synthNotes (update (Fin 0.1) None 0 ?s) = synthNotes (handleKeyCollision 0 3 0 ?s1)"
    unfolding update_single_synth [OF ms act] checkKeyCollisions_single [OF i k hit others] ..
  also have "\<dots> = [(Fin 349.23, Fin 0.35)]"
    unfolding handleKeyCollision_synthNotes [OF i] m1 k1
    by (simp add: marble_at_def make_key_def frequencies_def Vector3_def bounceDamping_def
        or_zero_def Math_min_def)
  finally have played: "synthNotes (update (Fin 0.1) None 0 ?s) = [(Fin 349.23, Fin 0.35)]" .
  have vy: "v_y (velocity (marbles ?s1 ! 0)) = Fin (- 5)"
    unfolding m1 by (simp add: marble_at_def Vector3_def)
  have hit3: "key_collision_test (marbles ?s1 ! 0) (make_key 3)"
    using hit unfolding k1 by simp
  from vy hit3 played show ?thesis by simp
qed


lemma update_marble_free:
  assumes i: "i < length (marbles s)" and act: "isActive (marbles s ! i)"
    and free: "\<forall>j < length (keys s).
        \<not> key_collision_test (marbles (integrate_marble dt a i s) ! i) (keys s ! j)"
    and high: "\<not> jlt (v_y (position (marbles (integrate_marble dt a i s) ! i))) (Fin (- 10))"
  shows "marbles (update_marble dt a now i s) = (marbles s)[i := marbles (integrate_marble dt a i s) ! i]"
    and "keys (update_marble dt a now i s) = keys s"
    and "synthNotes (update_marble dt a now i s) = synthNotes s"
proof -
  have c: "checkKeyCollisions i now (integrate_marble dt a i s) = integrate_marble dt a i s"
    using free by (intro checkKeyCollisions_none) simp
  show "marbles (update_marble dt a now i s) = (marbles s)[i := marbles (integrate_marble dt a i s) ! i]"
    using update_marble_marbles [OF i act, of dt a now] high by (simp add: c)
  show "keys (update_marble dt a now i s) = keys s"
    using act by (simp add: update_marble_def c)
  show "synthNotes (update_marble dt a now i s) = synthNotes s"
    using act by (simp add: update_marble_def c)
qed

lemma second_marble_strike_note:
  "synthNotes (update (Fin 0.1) None 0 (physics_with no_jitter
      [marble_at (Vector3 (Fin 0) (Fin 0.9) (Fin 0))
                 (Vector3 (Fin 0) (Fin (49 / 50 - 250 / 49)) (Fin 0)),
       marble_at (Vector3 (Fin 1) (Fin 5) (Fin 0))
                 (Vector3 (Fin 0) (Fin (49 / 50 + 1000 / 49)) (Fin 0))]))
     = [(Fin 349.23, Fin 1)]"
proof -
  let ?a = "marble_at (Vector3 (Fin 0) (Fin 0.9) (Fin 0))
                      (Vector3 (Fin 0) (Fin (49 / 50 - 250 / 49)) (Fin 0))"
  let ?b = "marble_at (Vector3 (Fin 1) (Fin 5) (Fin 0))
                      (Vector3 (Fin 0) (Fin (49 / 50 + 1000 / 49)) (Fin 0))"
  let ?b1 = "(marble_at (Vector3 (Fin 1) (Fin 7) (Fin 0)) (Vector3 (Fin 0) (Fin 20) (Fin 0)))
               \<lparr>acceleration := gravity\<rparr>"
  let ?a1 = "(marble_at (Vector3 (Fin 0) (Fin 0.4) (Fin 0)) (Vector3 (Fin 0) (Fin (- 5)) (Fin 0)))
               \<lparr>acceleration := gravity\<rparr>"
  let ?s = "physics_with no_jitter [?a, ?b]"
  let ?t = "update_marble (Fin 0.1) None 0 1 ?s"
  let ?t1 = "integrate_marble (Fin 0.1) None 0 ?t"
  have ms: "marbles ?s = [?a, ?b]" by simp
  have i1: "1 < length (marbles ?s)" by simp
  have b1: "marbles (integrate_marble (Fin 0.1) None 1 ?s) ! 1 = ?b1"
    unfolding integrate_marble_free [OF i1] ms
    by (simp add: marble_at_def Vector3_def vec_add_def multiplyScalar_def gravity_def
        friction_def)
  have actb: "isActive (marbles ?s ! 1)" by (simp add: marble_at_def)
  have freeb: "\<forall>j < length (keys ?s).
        \<not> key_collision_test (marbles (integrate_marble (Fin 0.1) None 1 ?s) ! 1) (keys ?s ! j)"
    unfolding b1 using misses_keys_at_one [of ?b1]
    by (simp add: list_all_length marble_at_def Vector3_def)
  have highb: "\<not> jlt (v_y (position (marbles (integrate_marble (Fin 0.1) None 1 ?s) ! 1))) (Fin (- 10))"
    unfolding b1 by (simp add: marble_at_def Vector3_def)
  note t = update_marble_free [OF i1 actb freeb highb, of 0]
  have mt: "marbles ?t = [?a, ?b1]" unfolding t(1) b1 ms by simp
  have kt: "keys ?t = map make_key [0..<7]" unfolding t(2) by simp
  have st: "synthNotes ?t = []" unfolding t(3) by simp
  have i0: "0 < length (marbles ?t)" using mt by simp
  have a1: "marbles ?t1 ! 0 = ?a1"
    unfolding integrate_marble_free [OF i0] mt
    by (simp add: marble_at_def Vector3_def vec_add_def multiplyScalar_def gravity_def
        friction_def)
  have "marbles ?t1 = (marbles ?t)[0 := marbles ?t1 ! 0]"
    using i0 by (rule integrate_marble_marbles)
  then have mt1: "marbles ?t1 = [?a1, ?b1]" unfolding a1 mt by simp
  have kt1: "keys ?t1 = map make_key [0..<7]" using kt by simp
  have st1: "synthNotes ?t1 = []" using st by simp
  have i: "0 < length (marbles ?t1)" using mt1 by simp
  have k: "3 < length (keys ?t1)" using kt1 by simp
  have px: "v_x (position ?a1) = Fin 0" by (simp add: marble_at_def Vector3_def)
  have hit: "key_collision_test (marbles ?t1 ! 0) (keys ?t1 ! 3)"
    unfolding mt1 kt1
    by (simp add: key_collision_test_def marble_at_def make_key_def Vector3_def jge_def jsub_def)
  have others: "\<forall>j < length (keys ?t1). j \<noteq> 3 \<longrightarrow> \<not> x_in_key (marbles ?t1 ! 0) (keys ?t1 ! j)"
    unfolding mt1 kt1 using only_key_three [OF px] by simp
  have act0: "isActive (marbles ?t ! 0)" unfolding mt by (simp add: marble_at_def)
  have "synthNotes (update (Fin 0.1) None 0 ?s) = synthNotes (update_marble (Fin 0.1) None 0 0 ?t)"
    by (simp add: update_def eval_nat_numeral)
  also have "\<dots> = synthNotes (checkKeyCollisions 0 0 ?t1)"
    using act0 by (simp add: update_marble_def)
  also have "\<dots> = synthNotes (handleKeyCollision 0 3 0 ?t1)"
    unfolding checkKeyCollisions_single [OF i k hit others] ..
  also have "\<dots> = [(Fin 349.23, Fin 1)]"
    unfolding handleKeyCollision_synthNotes [OF i] mt1 kt1 st1
    by (simp add: marble_at_def make_key_def frequencies_def Vector3_def bounceDamping_def
        or_zero_def Math_min_def)
  finally show ?thesis .
qed

text \<open>
  C1 does not hold of the code. \<open>handleKeyCollision\<close> overwrites the marble's vertical
  velocity with the damped bounce before it calls \<open>playNote\<close>, and \<open>playNote\<close> reads
  the velocity of the last marble of the array, whichever marble struck. A single marble
  that arrives at the key at the origin (F, 349.23 Hz) with \<open>velocity.y = -5\<close> sounds
  the note with velocity \<open>0.35\<close>, not \<open>0.5\<close>; with a second, faster marble behind it
  in the array the same strike sounds with velocity \<open>1\<close>.
\<close>

theorem strike_note_velocity:
  "v_y (velocity (marbles (integrate_marble (Fin 0.1) None 0 (physics_with no_jitter
      [marble_at (Vector3 (Fin 0) (Fin 0.9) (Fin 0))
                 (Vector3 (Fin 0) (Fin (49 / 50 - 250 / 49)) (Fin 0))])) ! 0)) = Fin (- 5) \<and>
   synthNotes (update (Fin 0.1) None 0 (physics_with no_jitter
      [marble_at (Vector3 (Fin 0) (Fin 0.9) (Fin 0))
                 (Vector3 (Fin 0) (Fin (49 / 50 - 250 / 49)) (Fin 0))]))
     = [(Fin 349.23, Fin 0.35)] \<and>
   synthNotes (update (Fin 0.1) None 0 (physics_with no_jitter
      [marble_at (Vector3 (Fin 0) (Fin 0.9) (Fin 0))
                 (Vector3 (Fin 0) (Fin (49 / 50 - 250 / 49)) (Fin 0)),
       marble_at (Vector3 (Fin 1) (Fin 5) (Fin 0))
                 (Vector3 (Fin 0) (Fin (49 / 50 + 1000 / 49)) (Fin 0))]))
     = [(Fin 349.23, Fin 1)]"
  using single_strike_note second_marble_strike_note by blast

section \<open>Properties of the effect rendering\<close>

subsection \<open>Adding and removing effects\<close>

lemma new_object_effects [simp]:
  "effects (snd (new_object k ps cs us e)) = effects e"
  "scene (snd (new_object k ps cs us e)) = scene e"
  by (simp_all add: new_object_def)

lemma e_random_effects [simp]:
  "effects (snd (e_random e)) = effects e"
  "scene (snd (e_random e)) = scene e"
  by (simp_all add: e_random_def)

lemma particle_init_effects:
  "effects (snd (snd (snd (particle_init (i, ps, cs, e))))) = effects e"
  by (simp add: particle_init_def e_random_def Let_def)

lemma particle_loop_effects:
  "effects (snd (snd (snd ((particle_init ^^ n) (i, ps, cs, e))))) = effects e"
proof (induction n)
  case 0
  show ?case by simp
next
  case (Suc n)
  obtain i' ps' cs' e' where eq: "(particle_init ^^ n) (i, ps, cs, e) = (i', ps', cs', e')"
    by (cases "(particle_init ^^ n) (i, ps, cs, e)") auto
  with Suc have "effects e' = effects e" by simp
  then show ?case by (simp add: eq particle_init_effects)
qed

lemma neural_init_effects:
  "effects (snd (snd (neural_init (i, ps, e)))) = effects e"
  by (simp add: neural_init_def e_random_def Let_def)

lemma neural_loop_effects:
  "effects (snd (snd ((neural_init ^^ n) (i, ps, e)))) = effects e"
proof (induction n)
  case 0
  show ?case by simp
next
  case (Suc n)
  obtain i' ps' e' where eq: "(neural_init ^^ n) (i, ps, e) = (i', ps', e')"
    by (cases "(neural_init ^^ n) (i, ps, e)") auto
  with Suc have "effects e' = effects e" by simp
  then show ?case by (simp add: eq neural_init_effects)
qed

lemma create_effects:
  "effects (snd (createWaveEffect effect e)) = effects e"
  "effects (snd (createGeometricEffect effect e)) = effects e"
  "effects (snd (createFluidEffect effect e)) = effects e"
  "effects (snd (createNeuralEffect effect e)) = effects e"
  "createParticleEffect effect e = Inr oe \<Longrightarrow> effects (snd oe) = effects e"
proof -
  show "effects (snd (createWaveEffect effect e)) = effects e"
    by (simp add: createWaveEffect_def)
  show "effects (snd (createGeometricEffect effect e)) = effects e"
    by (simp add: createGeometricEffect_def)
  show "effects (snd (createFluidEffect effect e)) = effects e"
    by (simp add: createFluidEffect_def)
  show "effects (snd (createNeuralEffect effect e)) = effects e"
    using neural_loop_effects [of 50 0 "replicate (50 * 3) (Fin 0)" e]
    by (simp add: createNeuralEffect_def Let_def split_beta)
  show "createParticleEffect effect e = Inr oe \<Longrightarrow> effects (snd oe) = effects e"
    using particle_loop_effects
    by (auto simp add: createParticleEffect_def Let_def split_beta split: sum.splits)
qed

lemma removeEffect_effects:
  "effects (removeEffect ident e) = Map_delete (effects e) ident"
  by (auto simp add: removeEffect_def Let_def Map_get_def Map_delete_def map_of_eq_None_iff
      split: option.splits intro!: filter_True [symmetric])

lemma register_then_remove:
  "effects (snd oe) = [] \<Longrightarrow>
   effects (removeEffect (eff_id effect) (register_effect effect oe)) = []"
  by (simp add: removeEffect_effects register_effect_def split_beta Map_delete_def)


lemma add_then_remove:
  assumes "effects e = []"
  shows "effects (removeEffect (eff_id effect) (snd (addEffect effect e))) = []"
proof -
  have plain: "effects (removeEffect (eff_id effect) e) = []"
    using assms by (simp add: removeEffect_effects Map_delete_def)
  have reg: "\<And>oe. effects (snd oe) = [] \<Longrightarrow>
      effects (removeEffect (eff_id effect) (register_effect effect oe)) = []"
    by (rule register_then_remove)
  show ?thesis
    using plain assms
    by (auto simp add: addEffect_def create_effects split: sum.splits intro!: reg
        dest: create_effects(5))
qed

lemma remove_absent:
  assumes "Map_get (effects e) ident = None"
  shows "removeEffect ident e =
     (case find (\<lambda>c. eff_id c = ident) (config_effects e) of
        Some effectConfig \<Rightarrow>
          (if eff_type effectConfig = ''marble''
           then e\<lparr>marblePhysics := map_option clearMarbles (marblePhysics e)\<rparr> else e)
      | None \<Rightarrow> e)"
  using assms by (simp add: removeEffect_def)

text \<open>
  C8, as stated, fails in its second half: the id of a marble effect of the configuration
  is never a key of the Map (\<open>addEffect\<close> stores nothing for the marble variant), yet
  removing it clears the marbles of the physics.
\<close>

theorem remove_marble_id_clears_marbles:
  "Map_get (effects (engine_with [] [effect_of ''effect-7'' ''marble'']
      (Some (physics_with no_jitter
         [marble_at (Vector3 (Fin 0) (Fin 5) (Fin 0)) (Vector3 (Fin 0) (Fin 0) (Fin 0))]))))
     ''effect-7'' = None \<and>
   map_option marbles (marblePhysics (engine_with [] [effect_of ''effect-7'' ''marble'']
      (Some (physics_with no_jitter
         [marble_at (Vector3 (Fin 0) (Fin 5) (Fin 0)) (Vector3 (Fin 0) (Fin 0) (Fin 0))]))))
     = Some [marble_at (Vector3 (Fin 0) (Fin 5) (Fin 0)) (Vector3 (Fin 0) (Fin 0) (Fin 0))] \<and>
   map_option marbles (marblePhysics (removeEffect ''effect-7''
      (engine_with [] [effect_of ''effect-7'' ''marble'']
      (Some (physics_with no_jitter
         [marble_at (Vector3 (Fin 0) (Fin 5) (Fin 0)) (Vector3 (Fin 0) (Fin 0) (Fin 0))])))))
     = Some []"
  by (simp add: removeEffect_def engine_with_def effect_of_def Map_get_def clearMarbles_def)

text \<open>
  C8, amended. Starting from an empty Map, \<open>addEffect\<close> followed by \<open>removeEffect\<close> of
  the same id leaves the Map empty (also when \<open>addEffect\<close> throws, which leaves the
  engine as it was). For an id that is not a key of the Map, \<open>removeEffect\<close> leaves the
  Map and the scene as they are, and changes nothing at all unless the configuration
  lists a marble effect under that id, in which case it clears the marbles.
  \<open>removeEffect\<close> has no failing branch.
\<close>

theorem add_remove_effect:
  assumes "effects e = []" and "Map_get (effects e') ident = None"
  shows "effects (removeEffect (eff_id effect) (snd (addEffect effect e))) = [] \<and>
         effects (removeEffect ident e') = effects e' \<and>
         scene (removeEffect ident e') = scene e' \<and>
         removeEffect ident e' =
           (case find (\<lambda>c. eff_id c = ident) (config_effects e') of
              Some effectConfig \<Rightarrow>
                (if eff_type effectConfig = ''marble''
                 then e'\<lparr>marblePhysics := map_option clearMarbles (marblePhysics e')\<rparr> else e')
            | None \<Rightarrow> e')"
proof -
  have a: "effects (removeEffect (eff_id effect) (snd (addEffect effect e))) = []"
    using assms(1) by (rule add_then_remove)
  note b = remove_absent [OF assms(2)]
  have c: "effects (removeEffect ident e') = effects e'" "scene (removeEffect ident e') = scene e'"
    unfolding b by (simp_all split: option.splits)
  from a b c show ?thesis by simp
qed

theorem add_remove_effect_witness:
  "effects (engine_with [] [] None) = [] \<and>
   Map_get (effects (engine_with [] [] None)) ''effect-9'' = None \<and>
   effects (removeEffect ''effect-1''
      (snd (addEffect (effect_of ''effect-1'' ''wave'') (engine_with [] [] None)))) = [] \<and>
   removeEffect ''effect-9'' (engine_with [] [] None) = engine_with [] [] None"
proof -
  have h1: "effects (engine_with [] [] None) = []" by (simp add: engine_with_def)
  have h2: "Map_get (effects (engine_with [] [] None)) ''effect-9'' = None"
    by (simp add: engine_with_def Map_get_def)
  have id: "eff_id (effect_of ''effect-1'' ''wave'') = ''effect-1''" by (simp add: effect_of_def)
  have cfg: "config_effects (engine_with [] [] None) = []" by (simp add: engine_with_def)
  from add_remove_effect [OF h1 h2, of "effect_of ''effect-1'' ''wave''"] h1 h2 show ?thesis
    unfolding id cfg by simp
qed


subsection \<open>Updating effects\<close>

lemma updateEffect_foreign:
  assumes "ident \<noteq> ''wave''" "ident \<noteq> ''particle''" "ident \<noteq> ''geometric''"
    "ident \<noteq> ''fluid''" "ident \<noteq> ''neural''"
  shows "updateEffect now effect ident e = (None, e)"
  using assms by (simp add: updateEffect_def split: option.splits)

lemma sin_tenth_pos: "0 < sin (1 / 10 :: real)"
proof -
  have "(1 / 10 :: real) < pi" using pi_ge_two by linarith
  then show ?thesis by (intro sin_gt_zero) simp_all
qed

lemma wave_engine:
  "snd (addEffect (effect_of ''effect-1'' ''wave'') (engine_with [Fin 1, Fin 0, Fin 0] [] None)) =
     (engine_with [Fin 1, Fin 0, Fin 0] [] None)
       \<lparr>effects := [(''effect-1'',
            \<lparr>oid = 0, kind = MeshKind, positions = [Fin 1, Fin 0, Fin 0], vertex_colors = None,
             uniforms = None, rot_x = Fin 0, rot_y = Fin 0, tweens = []\<rparr>)],
        scene := [0], next_oid := 1\<rparr>"
  by (simp add: addEffect_def effect_of_def createWaveEffect_def new_object_def
      register_effect_def engine_with_def)

lemma neural_object_kind: "kind (fst (createNeuralEffect effect e)) = PointsKind"
  by (simp add: createNeuralEffect_def Let_def split_beta new_object_def)

lemma neural_engine_effects:
  "effects (snd (addEffect (effect_of ''neural'' ''neural'') (engine_with [] [] None))) =
     [(''neural'', fst (createNeuralEffect (effect_of ''neural'' ''neural'')
                         (engine_with [] [] None)))]"
proof -
  have "effects (snd (createNeuralEffect (effect_of ''neural'' ''neural'')
                         (engine_with [] [] None))) = []"
    by (simp add: create_effects engine_with_def)
  then show ?thesis
    by (simp add: addEffect_def effect_of_def register_effect_def split_beta)
qed

text \<open>
  C2 does not hold of the code: \<open>updateEffect\<close> switches on the key of the Map, which
  is the effect's id, and compares it with the names of the variants. A wave effect
  stored under the id \<open>effect-1\<close> is left as it is by \<open>updateAudioData\<close>, although the
  wave update with bass level 0.5 would move its vertex from depth \<open>0\<close> to
  \<open>sin 0.1\<close>. A neural effect is left as it is even under the id \<open>neural\<close>: it is
  created as a \<open>Points\<close> object and \<open>updateNeuralEffect\<close> only touches a \<open>Mesh\<close>.
\<close>

theorem effects_are_not_updated:
  "Map_get (effects (snd (addEffect (effect_of ''effect-1'' ''wave'')
       (engine_with [Fin 1, Fin 0, Fin 0] [] None)))) ''effect-1'' =
     Some \<lparr>oid = 0, kind = MeshKind, positions = [Fin 1, Fin 0, Fin 0], vertex_colors = None,
           uniforms = None, rot_x = Fin 0, rot_y = Fin 0, tweens = []\<rparr> \<and>
   effects (snd (updateAudioData 0 loud_audio (snd (addEffect (effect_of ''effect-1'' ''wave'')
       (engine_with [Fin 1, Fin 0, Fin 0] [] None))))) =
     effects (snd (addEffect (effect_of ''effect-1'' ''wave'')
       (engine_with [Fin 1, Fin 0, Fin 0] [] None))) \<and>
   positions (updateWaveEffect
       \<lparr>oid = 0, kind = MeshKind, positions = [Fin 1, Fin 0, Fin 0], vertex_colors = None,
        uniforms = None, rot_x = Fin 0, rot_y = Fin 0, tweens = []\<rparr>
       (bassLevel loud_audio) (midLevel loud_audio) 0) = [Fin 1, Fin 0, Fin (sin (1 / 10))] \<and>
   Fin (sin (1 / 10)) \<noteq> Fin 0 \<and>
   effects (snd (updateAudioData 0 loud_audio (snd (addEffect (effect_of ''neural'' ''neural'')
       (engine_with [] [] None))))) =
     effects (snd (addEffect (effect_of ''neural'' ''neural'') (engine_with [] [] None)))"
proof -
  let ?e1 = "snd (addEffect (effect_of ''effect-1'' ''wave'')
       (engine_with [Fin 1, Fin 0, Fin 0] [] None))"
  let ?obj = "\<lparr>oid = 0, kind = MeshKind, positions = [Fin 1, Fin 0, Fin 0], vertex_colors = None,
        uniforms = None, rot_x = Fin 0, rot_y = Fin 0, tweens = []\<rparr>"
  have a: "Map_get (effects ?e1) ''effect-1'' = Some ?obj"
    unfolding wave_engine by (simp add: Map_get_def)
  have b: "effects (snd (updateAudioData 0 loud_audio ?e1)) = effects ?e1"
    unfolding wave_engine
    by (simp add: updateAudioData_def updateEffects_def updateEffect_foreign engine_with_def)
  have c: "positions (updateWaveEffect ?obj (bassLevel loud_audio) (midLevel loud_audio) 0)
             = [Fin 1, Fin 0, Fin (sin (1 / 10))]"
    by (simp add: updateWaveEffect_def every_third_def wave_vertex_def ta_get_def ta_set_def
        seconds_def loud_audio_def)
  have d: "Fin (sin (1 / 10)) \<noteq> Fin 0" using sin_tenth_pos by simp
  let ?e2 = "snd (addEffect (effect_of ''neural'' ''neural'') (engine_with [] [] None))"
  let ?n = "fst (createNeuralEffect (effect_of ''neural'' ''neural'') (engine_with [] [] None))"
  have same: "updateNeuralEffect ?n bs tr 0 = ?n" for bs tr
    by (simp add: updateNeuralEffect_def neural_object_kind)
  have e: "effects (snd (updateAudioData 0 loud_audio ?e2)) = effects ?e2"
    by (simp add: updateAudioData_def updateEffects_def updateEffect_def store_effect_def
        neural_engine_effects same split: prod.splits)
  from a b c d e show ?thesis by blast
qed

end
